theory Spec2Isabelle
  imports Main
begin

section \<open>Data model (shared/schema.ts)\<close>

text \<open>
  Identifiers are the \<open>varchar\<close> primary keys of the schema, timestamps are abstract
  instants. A nullable column is an \<open>option\<close>. Counters are \<open>int\<close> so that a negative
  value is representable: the SQL \<open>integer\<close> column would hold one.
\<close>

type_synonym ident = string
type_synonym timestamp = nat

record user =
  u_id :: ident
  u_email :: "string option"
  u_firstName :: "string option"
  u_lastName :: "string option"
  u_profileImageUrl :: "string option"
  u_createdAt :: "timestamp option"
  u_updatedAt :: "timestamp option"

text \<open>
  Modelled from the spec: the columns \<open>viewCount\<close>, \<open>likeCount\<close>, \<open>commentCount\<close> and
  \<open>countsLastUpdated\<close> of \<open>projects\<close> and \<open>communityPosts\<close>, and the table
  \<open>projectViews\<close>, are read and written by storage.ts and countSync.ts but their
  declarations are missing from the schema file at hand. The spec gives them as
  non-negative integer counters starting at 0, a timestamp written only by the
  reconciler, and an append-only view log (id, project id, optional user id, timestamp).
\<close>

record project =
  p_id :: ident
  p_title :: string
  p_shortDescription :: string
  p_detailedDescription :: string
  p_thumbnailUrl :: "string option"
  p_demoUrl :: "string option"
  p_sourceUrl :: "string option"
  p_tags :: "string list option"
  p_techStack :: "string list option"
  p_userId :: ident
  p_isFeatured :: "bool option"
  p_viewCount :: int
  p_likeCount :: int
  p_commentCount :: int
  p_countsLastUpdated :: "timestamp option"
  p_createdAt :: "timestamp option"
  p_updatedAt :: "timestamp option"

record projectLike =
  pl_id :: ident
  pl_projectId :: ident
  pl_userId :: ident
  pl_createdAt :: "timestamp option"

record projectBookmark =
  pb_id :: ident
  pb_projectId :: ident
  pb_userId :: ident
  pb_createdAt :: "timestamp option"

record communityPost =
  cp_id :: ident
  cp_title :: string
  cp_content :: string
  cp_isPinned :: "bool option"
  cp_userId :: ident
  cp_likeCount :: int
  cp_commentCount :: int
  cp_countsLastUpdated :: "timestamp option"
  cp_createdAt :: "timestamp option"
  cp_updatedAt :: "timestamp option"

record postLike =
  ql_id :: ident
  ql_postId :: ident
  ql_userId :: ident
  ql_createdAt :: "timestamp option"

record comment =
  c_id :: ident
  c_content :: string
  c_projectId :: "ident option"
  c_postId :: "ident option"
  c_userId :: ident
  c_createdAt :: "timestamp option"
  c_updatedAt :: "timestamp option"

record projectView =
  pv_id :: ident
  pv_projectId :: ident
  pv_userId :: "ident option"
  pv_ipAddress :: "string option"
  pv_createdAt :: "timestamp option"

text \<open>The database: one list of rows per table, in insertion order.\<close>

record db =
  users :: "user list"
  projects :: "project list"
  projectLikes :: "projectLike list"
  projectBookmarks :: "projectBookmark list"
  communityPosts :: "communityPost list"
  postLikes :: "postLike list"
  comments :: "comment list"
  projectViews :: "projectView list"

text \<open>Insert payloads (\<open>InsertProject\<close>, \<open>InsertCommunityPost\<close>, \<open>InsertComment\<close>).\<close>

record insertProject =
  ip_title :: string
  ip_shortDescription :: string
  ip_detailedDescription :: string
  ip_thumbnailUrl :: "string option"
  ip_demoUrl :: "string option"
  ip_sourceUrl :: "string option"
  ip_tags :: "string list option"
  ip_techStack :: "string list option"
  ip_userId :: ident
  ip_isFeatured :: "bool option"

record insertCommunityPost =
  icp_title :: string
  icp_content :: string
  icp_isPinned :: "bool option"
  icp_userId :: ident

record insertComment =
  ic_content :: string
  ic_projectId :: "ident option"
  ic_postId :: "ident option"
  ic_userId :: ident

section \<open>The store: statements and constraints\<close>

text \<open>
  What a statement can raise. The schema declares primary keys and foreign keys; a
  \<open>StoreFault\<close> is a failure of the store itself (connection lost, timeout), carrying
  the text of the error.
\<close>

datatype store_error = UniqueViolation | ForeignKeyViolation | StoreFault string

fun error_text :: "store_error \<Rightarrow> string" where
  "error_text UniqueViolation = ''duplicate key value violates unique constraint''"
| "error_text ForeignKeyViolation = ''insert or update violates foreign key constraint''"
| "error_text (StoreFault m) = m"

text \<open>\<open>UPDATE t SET ... WHERE c\<close>, \<open>DELETE FROM t WHERE c\<close> with its \<open>rowCount\<close>, and
  \<open>SELECT count(*) FROM t WHERE c\<close>.\<close>

definition update_where :: "('r \<Rightarrow> bool) \<Rightarrow> ('r \<Rightarrow> 'r) \<Rightarrow> 'r list \<Rightarrow> 'r list" where
  "update_where c f rows = map (\<lambda>r. if c r then f r else r) rows"

definition delete_where :: "('r \<Rightarrow> bool) \<Rightarrow> 'r list \<Rightarrow> 'r list" where
  "delete_where c rows = filter (\<lambda>r. \<not> c r) rows"

definition rowCount :: "('r \<Rightarrow> bool) \<Rightarrow> 'r list \<Rightarrow> nat" where
  "rowCount c rows = length (filter c rows)"

definition count_where :: "('r \<Rightarrow> bool) \<Rightarrow> 'r list \<Rightarrow> int" where
  "count_where c rows = int (length (filter c rows))"

text \<open>JavaScript truthiness of an optional string: \<open>null\<close>, \<open>undefined\<close> and the empty
  string are falsy.\<close>

fun truthy :: "string option \<Rightarrow> bool" where
  "truthy None = False"
| "truthy (Some s) = (s \<noteq> [])"

definition user_exists :: "db \<Rightarrow> ident \<Rightarrow> bool" where
  "user_exists d uid = (uid \<in> set (map u_id (users d)))"

definition project_exists :: "db \<Rightarrow> ident \<Rightarrow> bool" where
  "project_exists d pid = (pid \<in> set (map p_id (projects d)))"

definition post_exists :: "db \<Rightarrow> ident \<Rightarrow> bool" where
  "post_exists d qid = (qid \<in> set (map cp_id (communityPosts d)))"

text \<open>
  \<open>INSERT INTO project_likes\<close>: the table has a primary key \<open>id\<close> and two foreign keys,
  \<open>project_id\<close> and \<open>user_id\<close>, both \<open>NOT NULL\<close>; it declares no other constraint.
\<close>

definition insert_projectLike :: "projectLike \<Rightarrow> db \<Rightarrow> store_error + db" where
  "insert_projectLike r d =
     (if pl_id r \<in> set (map pl_id (projectLikes d)) then Inl UniqueViolation
      else if \<not> project_exists d (pl_projectId r) \<or> \<not> user_exists d (pl_userId r)
        then Inl ForeignKeyViolation
      else Inr (d\<lparr>projectLikes := projectLikes d @ [r]\<rparr>))"

definition insert_postLike :: "postLike \<Rightarrow> db \<Rightarrow> store_error + db" where
  "insert_postLike r d =
     (if ql_id r \<in> set (map ql_id (postLikes d)) then Inl UniqueViolation
      else if \<not> post_exists d (ql_postId r) \<or> \<not> user_exists d (ql_userId r)
        then Inl ForeignKeyViolation
      else Inr (d\<lparr>postLikes := postLikes d @ [r]\<rparr>))"

definition insert_projectBookmark :: "projectBookmark \<Rightarrow> db \<Rightarrow> store_error + db" where
  "insert_projectBookmark r d =
     (if pb_id r \<in> set (map pb_id (projectBookmarks d)) then Inl UniqueViolation
      else if \<not> project_exists d (pb_projectId r) \<or> \<not> user_exists d (pb_userId r)
        then Inl ForeignKeyViolation
      else Inr (d\<lparr>projectBookmarks := projectBookmarks d @ [r]\<rparr>))"

text \<open>\<open>INSERT INTO comments\<close>: \<open>project_id\<close> and \<open>post_id\<close> are nullable foreign keys.\<close>

definition insert_comment :: "comment \<Rightarrow> db \<Rightarrow> store_error + db" where
  "insert_comment r d =
     (if c_id r \<in> set (map c_id (comments d)) then Inl UniqueViolation
      else if (case c_projectId r of None \<Rightarrow> False | Some p \<Rightarrow> \<not> project_exists d p)
            \<or> (case c_postId r of None \<Rightarrow> False | Some q \<Rightarrow> \<not> post_exists d q)
            \<or> \<not> user_exists d (c_userId r)
        then Inl ForeignKeyViolation
      else Inr (d\<lparr>comments := comments d @ [r]\<rparr>))"

section \<open>Inline mutators (server/storage.ts, class DatabaseStorage)\<close>

text \<open>
  Every operation takes the database and returns it updated. A generated primary key
  (\<open>gen_random_uuid()\<close>) and the current time (\<open>defaultNow()\<close>, \<open>new Date()\<close>) are
  arguments \<open>newId\<close> and \<open>now\<close>.
\<close>

text \<open>
  \<open>likeProject\<close> and \<open>likeCommunityPost\<close> run the INSERT and the counter UPDATE inside
  one \<open>try\<close> whose \<open>catch\<close> returns false. The INSERT throws when the store rejects
  the row. The UPDATE violates no constraint and can only throw on a failure of the
  store; \<open>updateFault\<close> says whether it does, with the text of the error. In that case
  the row is already inserted and stays, the counter is not touched and the result is
  false.
\<close>

definition likeProject ::
  "ident \<Rightarrow> ident \<Rightarrow> ident \<Rightarrow> timestamp \<Rightarrow> string option \<Rightarrow> db \<Rightarrow> bool \<times> db" where
  "likeProject projectId userId newId now updateFault d =
     (case insert_projectLike
             \<lparr>pl_id = newId, pl_projectId = projectId, pl_userId = userId,
              pl_createdAt = Some now\<rparr> d of
        Inl e \<Rightarrow> (False, d)
      | Inr d1 \<Rightarrow>
          (case updateFault of
             Some m \<Rightarrow> (False, d1)
           | None \<Rightarrow>
               (True, d1\<lparr>projects :=
                  update_where (\<lambda>p. p_id p = projectId)
                    (\<lambda>p. p\<lparr>p_likeCount := p_likeCount p + 1\<rparr>) (projects d1)\<rparr>)))"

definition unlikeProject :: "ident \<Rightarrow> ident \<Rightarrow> db \<Rightarrow> bool \<times> db" where
  "unlikeProject projectId userId d =
     (let c = (\<lambda>l. pl_projectId l = projectId \<and> pl_userId l = userId);
          n = rowCount c (projectLikes d);
          d1 = d\<lparr>projectLikes := delete_where c (projectLikes d)\<rparr>
      in if n > 0
         then (True, d1\<lparr>projects :=
                 update_where (\<lambda>p. p_id p = projectId)
                   (\<lambda>p. p\<lparr>p_likeCount := p_likeCount p - 1\<rparr>) (projects d1)\<rparr>)
         else (False, d1))"

definition isProjectLiked :: "ident \<Rightarrow> ident \<Rightarrow> db \<Rightarrow> bool" where
  "isProjectLiked projectId userId d =
     (filter (\<lambda>l. pl_projectId l = projectId \<and> pl_userId l = userId) (projectLikes d) \<noteq> [])"

definition likeCommunityPost ::
  "ident \<Rightarrow> ident \<Rightarrow> ident \<Rightarrow> timestamp \<Rightarrow> string option \<Rightarrow> db \<Rightarrow> bool \<times> db" where
  "likeCommunityPost postId userId newId now updateFault d =
     (case insert_postLike
             \<lparr>ql_id = newId, ql_postId = postId, ql_userId = userId,
              ql_createdAt = Some now\<rparr> d of
        Inl e \<Rightarrow> (False, d)
      | Inr d1 \<Rightarrow>
          (case updateFault of
             Some m \<Rightarrow> (False, d1)
           | None \<Rightarrow>
               (True, d1\<lparr>communityPosts :=
                  update_where (\<lambda>q. cp_id q = postId)
                    (\<lambda>q. q\<lparr>cp_likeCount := cp_likeCount q + 1\<rparr>) (communityPosts d1)\<rparr>)))"

definition unlikeCommunityPost :: "ident \<Rightarrow> ident \<Rightarrow> db \<Rightarrow> bool \<times> db" where
  "unlikeCommunityPost postId userId d =
     (let c = (\<lambda>l. ql_postId l = postId \<and> ql_userId l = userId);
          n = rowCount c (postLikes d);
          d1 = d\<lparr>postLikes := delete_where c (postLikes d)\<rparr>
      in if n > 0
         then (True, d1\<lparr>communityPosts :=
                 update_where (\<lambda>q. cp_id q = postId)
                   (\<lambda>q. q\<lparr>cp_likeCount := cp_likeCount q - 1\<rparr>) (communityPosts d1)\<rparr>)
         else (False, d1))"

definition bookmarkProject :: "ident \<Rightarrow> ident \<Rightarrow> ident \<Rightarrow> timestamp \<Rightarrow> db \<Rightarrow> bool \<times> db" where
  "bookmarkProject projectId userId newId now d =
     (case insert_projectBookmark
             \<lparr>pb_id = newId, pb_projectId = projectId, pb_userId = userId,
              pb_createdAt = Some now\<rparr> d of
        Inl e \<Rightarrow> (False, d)
      | Inr d1 \<Rightarrow> (True, d1))"

definition unbookmarkProject :: "ident \<Rightarrow> ident \<Rightarrow> db \<Rightarrow> bool \<times> db" where
  "unbookmarkProject projectId userId d =
     (let c = (\<lambda>b. pb_projectId b = projectId \<and> pb_userId b = userId)
      in (rowCount c (projectBookmarks d) > 0,
          d\<lparr>projectBookmarks := delete_where c (projectBookmarks d)\<rparr>))"

definition incrementProjectViews :: "ident \<Rightarrow> db \<Rightarrow> db" where
  "incrementProjectViews pid d =
     d\<lparr>projects :=
         update_where (\<lambda>p. p_id p = pid)
           (\<lambda>p. p\<lparr>p_viewCount := p_viewCount p + 1\<rparr>) (projects d)\<rparr>"

definition createComment ::
  "insertComment \<Rightarrow> ident \<Rightarrow> timestamp \<Rightarrow> db \<Rightarrow> store_error + (comment \<times> db)" where
  "createComment cm newId now d =
     (let newComment =
            \<lparr>c_id = newId, c_content = ic_content cm, c_projectId = ic_projectId cm,
             c_postId = ic_postId cm, c_userId = ic_userId cm,
             c_createdAt = Some now, c_updatedAt = Some now\<rparr>
      in case insert_comment newComment d of
           Inl e \<Rightarrow> Inl e
         | Inr d1 \<Rightarrow>
             if truthy (ic_projectId cm)
             then Inr (newComment,
                       d1\<lparr>projects :=
                            update_where (\<lambda>p. Some (p_id p) = ic_projectId cm)
                              (\<lambda>p. p\<lparr>p_commentCount := p_commentCount p + 1\<rparr>)
                              (projects d1)\<rparr>)
             else if truthy (ic_postId cm)
             then Inr (newComment,
                       d1\<lparr>communityPosts :=
                            update_where (\<lambda>q. Some (cp_id q) = ic_postId cm)
                              (\<lambda>q. q\<lparr>cp_commentCount := cp_commentCount q + 1\<rparr>)
                              (communityPosts d1)\<rparr>)
             else Inr (newComment, d1))"

definition deleteComment :: "ident \<Rightarrow> ident \<Rightarrow> db \<Rightarrow> bool \<times> db" where
  "deleteComment cid userId d =
     (let c = (\<lambda>r. c_id r = cid \<and> c_userId r = userId)
      in case filter c (comments d) of
           [] \<Rightarrow> (False, d)
         | cm # _ \<Rightarrow>
             (let n = rowCount c (comments d);
                  d1 = d\<lparr>comments := delete_where c (comments d)\<rparr>
              in if n > 0
                 then (if truthy (c_projectId cm)
                       then (True,
                             d1\<lparr>projects :=
                                  update_where (\<lambda>p. Some (p_id p) = c_projectId cm)
                                    (\<lambda>p. p\<lparr>p_commentCount := p_commentCount p - 1\<rparr>)
                                    (projects d1)\<rparr>)
                       else if truthy (c_postId cm)
                       then (True,
                             d1\<lparr>communityPosts :=
                                  update_where (\<lambda>q. Some (cp_id q) = c_postId cm)
                                    (\<lambda>q. q\<lparr>cp_commentCount := cp_commentCount q - 1\<rparr>)
                                    (communityPosts d1)\<rparr>)
                       else (True, d1))
                 else (False, d1)))"

text \<open>
  \<open>createProject\<close> and \<open>createCommunityPost\<close> insert the payload; the key, the creation
  times and the counters take their column defaults.
\<close>

definition createProject ::
  "insertProject \<Rightarrow> ident \<Rightarrow> timestamp \<Rightarrow> db \<Rightarrow> store_error + (project \<times> db)" where
  "createProject pr newId now d =
     (let newProject =
            \<lparr>p_id = newId, p_title = ip_title pr,
             p_shortDescription = ip_shortDescription pr,
             p_detailedDescription = ip_detailedDescription pr,
             p_thumbnailUrl = ip_thumbnailUrl pr, p_demoUrl = ip_demoUrl pr,
             p_sourceUrl = ip_sourceUrl pr, p_tags = ip_tags pr,
             p_techStack = ip_techStack pr, p_userId = ip_userId pr,
             p_isFeatured = (case ip_isFeatured pr of None \<Rightarrow> Some False | Some b \<Rightarrow> Some b),
             p_viewCount = 0, p_likeCount = 0, p_commentCount = 0,
             p_countsLastUpdated = None,
             p_createdAt = Some now, p_updatedAt = Some now\<rparr>
      in if project_exists d newId then Inl UniqueViolation
         else if \<not> user_exists d (ip_userId pr) then Inl ForeignKeyViolation
         else Inr (newProject, d\<lparr>projects := projects d @ [newProject]\<rparr>))"

definition createCommunityPost ::
  "insertCommunityPost \<Rightarrow> ident \<Rightarrow> timestamp \<Rightarrow> db \<Rightarrow> store_error + (communityPost \<times> db)" where
  "createCommunityPost po newId now d =
     (let newPost =
            \<lparr>cp_id = newId, cp_title = icp_title po, cp_content = icp_content po,
             cp_isPinned = (case icp_isPinned po of None \<Rightarrow> Some False | Some b \<Rightarrow> Some b),
             cp_userId = icp_userId po,
             cp_likeCount = 0, cp_commentCount = 0, cp_countsLastUpdated = None,
             cp_createdAt = Some now, cp_updatedAt = Some now\<rparr>
      in if post_exists d newId then Inl UniqueViolation
         else if \<not> user_exists d (icp_userId po) then Inl ForeignKeyViolation
         else Inr (newPost, d\<lparr>communityPosts := communityPosts d @ [newPost]\<rparr>))"

text \<open>
  Modelled from the spec: \<open>storage.trackProjectView(id, userId, ipAddress)\<close> is what the
  route \<open>GET /api/projects/:id\<close> calls, but its body is missing from the storage file at
  hand (which only has the older \<open>incrementProjectViews\<close> above). The spec's
  \<open>recordView(projectId, userId?, ipAddress?)\<close> always appends a ProjectView row, with no
  uniqueness constraint, and increments the cached \<open>viewCount\<close> by 1 unconditionally.
\<close>

definition trackProjectView ::
  "ident \<Rightarrow> ident option \<Rightarrow> string option \<Rightarrow> ident \<Rightarrow> timestamp \<Rightarrow> db \<Rightarrow> db" where
  "trackProjectView projectId userId ipAddress newId now d =
     (let d1 = d\<lparr>projectViews := projectViews d @
                  [\<lparr>pv_id = newId, pv_projectId = projectId, pv_userId = userId,
                    pv_ipAddress = ipAddress, pv_createdAt = Some now\<rparr>]\<rparr>
      in d1\<lparr>projects :=
              update_where (\<lambda>p. p_id p = projectId)
                (\<lambda>p. p\<lparr>p_viewCount := p_viewCount p + 1\<rparr>) (projects d1)\<rparr>)"

section \<open>Batch reconciler (server/countSync.ts)\<close>

text \<open>
  None of the reconciler's statements can violate a constraint, so the only failures it
  can meet are failures of the store. They are an argument: \<open>faults\<close> says whether
  listing the projects (posts) fails, and for which project (post) one of the count
  queries or the update fails, with the text of the error. The update is the last
  statement for an entity, so a fault leaves that entity's row as it was.
  \<open>clock\<close> gives the value of \<open>new Date()\<close> at the update of each entity.
\<close>

record faults =
  listProjectsFault :: "string option"
  projectFault :: "ident \<Rightarrow> string option"
  listPostsFault :: "string option"
  postFault :: "ident \<Rightarrow> string option"

definition noFaults :: faults where
  "noFaults = \<lparr>listProjectsFault = None, projectFault = (\<lambda>_. None),
               listPostsFault = None, postFault = (\<lambda>_. None)\<rparr>"

record countSyncResult =
  projectsUpdated :: nat
  postsUpdated :: nat
  errors :: "string list"

text \<open>The three count queries and the update of one project, and the two count queries
  and the update of one post: the body shared by the batch loops and the single-entity
  functions.\<close>

definition recountProject :: "timestamp \<Rightarrow> ident \<Rightarrow> db \<Rightarrow> db" where
  "recountProject now projectId d =
     (let viewCountResult = count_where (\<lambda>v. pv_projectId v = projectId) (projectViews d);
          likeCountResult = count_where (\<lambda>l. pl_projectId l = projectId) (projectLikes d);
          commentCountResult = count_where (\<lambda>c. c_projectId c = Some projectId) (comments d)
      in d\<lparr>projects :=
             update_where (\<lambda>p. p_id p = projectId)
               (\<lambda>p. p\<lparr>p_viewCount := viewCountResult, p_likeCount := likeCountResult,
                       p_commentCount := commentCountResult,
                       p_countsLastUpdated := Some now\<rparr>) (projects d)\<rparr>)"

definition recountPost :: "timestamp \<Rightarrow> ident \<Rightarrow> db \<Rightarrow> db" where
  "recountPost now postId d =
     (let likeCountResult = count_where (\<lambda>l. ql_postId l = postId) (postLikes d);
          commentCountResult = count_where (\<lambda>c. c_postId c = Some postId) (comments d)
      in d\<lparr>communityPosts :=
             update_where (\<lambda>q. cp_id q = postId)
               (\<lambda>q. q\<lparr>cp_likeCount := likeCountResult,
                       cp_commentCount := commentCountResult,
                       cp_countsLastUpdated := Some now\<rparr>) (communityPosts d)\<rparr>)"

text \<open>The \<open>for\<close> loops: the first failure leaves the loop through the enclosing
  \<open>try\<close>, whose \<open>catch\<close> logs and rethrows; the rows updated so far stay updated.\<close>

fun syncProjectLoop ::
  "faults \<Rightarrow> (ident \<Rightarrow> timestamp) \<Rightarrow> ident list \<Rightarrow> nat \<Rightarrow> db \<Rightarrow> (store_error + nat) \<times> db" where
  "syncProjectLoop f clock [] updatedCount d = (Inr updatedCount, d)"
| "syncProjectLoop f clock (projectId # rest) updatedCount d =
     (case projectFault f projectId of
        Some m \<Rightarrow> (Inl (StoreFault m), d)
      | None \<Rightarrow>
          syncProjectLoop f clock rest (updatedCount + 1)
            (recountProject (clock projectId) projectId d))"

definition syncProjectCounts ::
  "faults \<Rightarrow> (ident \<Rightarrow> timestamp) \<Rightarrow> db \<Rightarrow> (store_error + nat) \<times> db" where
  "syncProjectCounts f clock d =
     (case listProjectsFault f of
        Some m \<Rightarrow> (Inl (StoreFault m), d)
      | None \<Rightarrow> syncProjectLoop f clock (map p_id (projects d)) 0 d)"

fun syncPostLoop ::
  "faults \<Rightarrow> (ident \<Rightarrow> timestamp) \<Rightarrow> ident list \<Rightarrow> nat \<Rightarrow> db \<Rightarrow> (store_error + nat) \<times> db" where
  "syncPostLoop f clock [] updatedCount d = (Inr updatedCount, d)"
| "syncPostLoop f clock (postId # rest) updatedCount d =
     (case postFault f postId of
        Some m \<Rightarrow> (Inl (StoreFault m), d)
      | None \<Rightarrow>
          syncPostLoop f clock rest (updatedCount + 1)
            (recountPost (clock postId) postId d))"

definition syncCommunityPostCounts ::
  "faults \<Rightarrow> (ident \<Rightarrow> timestamp) \<Rightarrow> db \<Rightarrow> (store_error + nat) \<times> db" where
  "syncCommunityPostCounts f clock d =
     (case listPostsFault f of
        Some m \<Rightarrow> (Inl (StoreFault m), d)
      | None \<Rightarrow> syncPostLoop f clock (map cp_id (communityPosts d)) 0 d)"

text \<open>\<open>syncAllCounts\<close> never throws: its \<open>catch\<close> turns whatever either half rethrew
  into one entry of \<open>errors\<close>. The counts are assigned only after the half returned.\<close>

definition syncAllCounts ::
  "faults \<Rightarrow> (ident \<Rightarrow> timestamp) \<Rightarrow> db \<Rightarrow> countSyncResult \<times> db" where
  "syncAllCounts f clock d =
     (case syncProjectCounts f clock d of
        (Inl e, d1) \<Rightarrow>
          (\<lparr>projectsUpdated = 0, postsUpdated = 0,
            errors = [''Batch sync failed: '' @ error_text e]\<rparr>, d1)
      | (Inr n, d1) \<Rightarrow>
          (case syncCommunityPostCounts f clock d1 of
             (Inl e, d2) \<Rightarrow>
               (\<lparr>projectsUpdated = n, postsUpdated = 0,
                 errors = [''Batch sync failed: '' @ error_text e]\<rparr>, d2)
           | (Inr m, d2) \<Rightarrow>
               (\<lparr>projectsUpdated = n, postsUpdated = m, errors = []\<rparr>, d2)))"

definition syncSingleProjectCounts ::
  "faults \<Rightarrow> timestamp \<Rightarrow> ident \<Rightarrow> db \<Rightarrow> store_error + db" where
  "syncSingleProjectCounts f now projectId d =
     (case projectFault f projectId of
        Some m \<Rightarrow> Inl (StoreFault m)
      | None \<Rightarrow> Inr (recountProject now projectId d))"

definition syncSinglePostCounts ::
  "faults \<Rightarrow> timestamp \<Rightarrow> ident \<Rightarrow> db \<Rightarrow> store_error + db" where
  "syncSinglePostCounts f now postId d =
     (case postFault f postId of
        Some m \<Rightarrow> Inl (StoreFault m)
      | None \<Rightarrow> Inr (recountPost now postId d))"

section \<open>Rows as the reconciler writes them\<close>

text \<open>The \<open>SET\<close> clause of the reconciler's update, applied to one row: the three
  (two) counts of the row's own id, read from the tables of \<open>d\<close>, and the stamp.\<close>

definition projectRecounted :: "db \<Rightarrow> timestamp \<Rightarrow> project \<Rightarrow> project" where
  "projectRecounted d now p =
     p\<lparr>p_viewCount := count_where (\<lambda>v. pv_projectId v = p_id p) (projectViews d),
       p_likeCount := count_where (\<lambda>l. pl_projectId l = p_id p) (projectLikes d),
       p_commentCount := count_where (\<lambda>c. c_projectId c = Some (p_id p)) (comments d),
       p_countsLastUpdated := Some now\<rparr>"

definition postRecounted :: "db \<Rightarrow> timestamp \<Rightarrow> communityPost \<Rightarrow> communityPost" where
  "postRecounted d now q =
     q\<lparr>cp_likeCount := count_where (\<lambda>l. ql_postId l = cp_id q) (postLikes d),
       cp_commentCount := count_where (\<lambda>c. c_postId c = Some (cp_id q)) (comments d),
       cp_countsLastUpdated := Some now\<rparr>"

section \<open>Reachable databases and the counter invariant\<close>

text \<open>
  The databases the subsystem can reach: from a database with users and no other row,
  by creating projects and posts and by any sequence of like, unlike, comment, delete
  comment, view, bookmark and reconcile operations, one after the other. A store failure
  may hit any statement. A reconciler run takes its failures as an argument, and so does
  the counter UPDATE of a like. The other mutators have no \<open>try\<close>: when their counter
  UPDATE throws, the exception leaves the database as their first statement made it, and
  the rules named \<open>interrupted\<close> add these databases.

  The first argument of \<open>reachable\<close> says which failures are admitted. With \<open>True\<close> all
  are. With \<open>False\<close> the counter UPDATE that follows an accepted like or comment INSERT
  never fails; every other failure, also of the counter UPDATE of an unlike or a delete,
  stays admitted.

  User rows are written by \<open>upsertUser\<close>, which inserts or updates one row of the users
  table and touches no other table; the rule \<open>users_changed\<close> covers it by allowing any
  new content of that table.
\<close>

inductive reachable :: "bool \<Rightarrow> db \<Rightarrow> bool" for lossy :: bool where
  start:
    "reachable lossy
       \<lparr>users = us, projects = [], projectLikes = [], projectBookmarks = [],
        communityPosts = [], postLikes = [], comments = [], projectViews = []\<rparr>"
| users_changed:
    "reachable lossy d \<Longrightarrow> reachable lossy (d\<lparr>users := us\<rparr>)"
| project_created:
    "reachable lossy d \<Longrightarrow> createProject pr newId now d = Inr (p, d') \<Longrightarrow> reachable lossy d'"
| post_created:
    "reachable lossy d \<Longrightarrow> createCommunityPost po newId now d = Inr (q, d') \<Longrightarrow>
     reachable lossy d'"
| project_liked:
    "reachable lossy d \<Longrightarrow> lossy \<or> updateFault = None \<Longrightarrow>
     reachable lossy (snd (likeProject pid uid newId now updateFault d))"
| project_unliked:
    "reachable lossy d \<Longrightarrow> reachable lossy (snd (unlikeProject pid uid d))"
| project_unlike_interrupted:
    "reachable lossy d \<Longrightarrow>
     reachable lossy
       (d\<lparr>projectLikes :=
            delete_where (\<lambda>l. pl_projectId l = pid \<and> pl_userId l = uid) (projectLikes d)\<rparr>)"
| post_liked:
    "reachable lossy d \<Longrightarrow> lossy \<or> updateFault = None \<Longrightarrow>
     reachable lossy (snd (likeCommunityPost qid uid newId now updateFault d))"
| post_unliked:
    "reachable lossy d \<Longrightarrow> reachable lossy (snd (unlikeCommunityPost qid uid d))"
| post_unlike_interrupted:
    "reachable lossy d \<Longrightarrow>
     reachable lossy
       (d\<lparr>postLikes :=
            delete_where (\<lambda>l. ql_postId l = qid \<and> ql_userId l = uid) (postLikes d)\<rparr>)"
| bookmarked:
    "reachable lossy d \<Longrightarrow> reachable lossy (snd (bookmarkProject pid uid newId now d))"
| unbookmarked:
    "reachable lossy d \<Longrightarrow> reachable lossy (snd (unbookmarkProject pid uid d))"
| comment_created:
    "reachable lossy d \<Longrightarrow> createComment cm newId now d = Inr (c, d') \<Longrightarrow> reachable lossy d'"
| comment_create_interrupted:
    "reachable lossy d \<Longrightarrow> lossy \<Longrightarrow>
     insert_comment
       \<lparr>c_id = newId, c_content = ic_content (cm :: insertComment),
        c_projectId = ic_projectId cm,
        c_postId = ic_postId cm, c_userId = ic_userId cm,
        c_createdAt = Some now, c_updatedAt = Some now\<rparr> d = Inr d' \<Longrightarrow>
     reachable lossy d'"
| comment_deleted:
    "reachable lossy d \<Longrightarrow> reachable lossy (snd (deleteComment cid uid d))"
| comment_delete_interrupted:
    "reachable lossy d \<Longrightarrow>
     reachable lossy
       (d\<lparr>comments := delete_where (\<lambda>r. c_id r = cid \<and> c_userId r = uid) (comments d)\<rparr>)"
| views_incremented:
    "reachable lossy d \<Longrightarrow> reachable lossy (incrementProjectViews pid d)"
| view_tracked:
    "reachable lossy d \<Longrightarrow> reachable lossy (trackProjectView pid viewer ip newId now d)"
| view_track_interrupted:
    "reachable lossy d \<Longrightarrow> reachable lossy (d\<lparr>projectViews := projectViews d @ [v]\<rparr>)"
| project_synced:
    "reachable lossy d \<Longrightarrow> syncSingleProjectCounts f now pid d = Inr d' \<Longrightarrow> reachable lossy d'"
| post_synced:
    "reachable lossy d \<Longrightarrow> syncSinglePostCounts f now qid d = Inr d' \<Longrightarrow> reachable lossy d'"
| all_synced:
    "reachable lossy d \<Longrightarrow> reachable lossy (snd (syncAllCounts f clock d))"

text \<open>
  What a cached counter is bounded by from below. A like counter is at least the number
  of distinct users with a like row for the target (one unlike removes all rows of a
  user and takes 1 off). A comment counter is at least the number of comments whose
  counter branch is this target: a project for a truthy \<open>projectId\<close>, a post for a
  truthy \<open>postId\<close> when \<open>projectId\<close> is falsy.
\<close>

definition projectLikers :: "projectLike list \<Rightarrow> ident \<Rightarrow> int" where
  "projectLikers ls pid =
     int (card (pl_userId ` {l \<in> set ls. pl_projectId l = pid}))"

definition postLikers :: "postLike list \<Rightarrow> ident \<Rightarrow> int" where
  "postLikers ls qid =
     int (card (ql_userId ` {l \<in> set ls. ql_postId l = qid}))"

definition countsForProject :: "ident \<Rightarrow> comment \<Rightarrow> bool" where
  "countsForProject pid c = (truthy (c_projectId c) \<and> c_projectId c = Some pid)"

definition countsForPost :: "ident \<Rightarrow> comment \<Rightarrow> bool" where
  "countsForPost qid c =
     (\<not> truthy (c_projectId c) \<and> truthy (c_postId c) \<and> c_postId c = Some qid)"

definition project_ok :: "projectLike list \<Rightarrow> comment list \<Rightarrow> project \<Rightarrow> bool" where
  "project_ok ls cs p =
     (0 \<le> p_viewCount p
      \<and> projectLikers ls (p_id p) \<le> p_likeCount p
      \<and> count_where (countsForProject (p_id p)) cs \<le> p_commentCount p)"

definition post_ok :: "postLike list \<Rightarrow> comment list \<Rightarrow> communityPost \<Rightarrow> bool" where
  "post_ok ls cs q =
     (postLikers ls (cp_id q) \<le> cp_likeCount q
      \<and> count_where (countsForPost (cp_id q)) cs \<le> cp_commentCount q)"

definition references_ok :: "db \<Rightarrow> bool" where
  "references_ok d =
     ((\<forall>l \<in> set (projectLikes d). project_exists d (pl_projectId l))
      \<and> (\<forall>l \<in> set (postLikes d). post_exists d (ql_postId l))
      \<and> (\<forall>c \<in> set (comments d).
            (\<forall>p. c_projectId c = Some p \<longrightarrow> project_exists d p)
          \<and> (\<forall>q. c_postId c = Some q \<longrightarrow> post_exists d q)))"

definition counters_consistent :: "db \<Rightarrow> bool" where
  "counters_consistent d =
     (references_ok d
      \<and> (\<forall>p \<in> set (projects d). project_ok (projectLikes d) (comments d) p)
      \<and> (\<forall>q \<in> set (communityPosts d). post_ok (postLikes d) (comments d) q))"

section \<open>Example databases\<close>

text \<open>Two users, two projects and one post, all counters at 0 and no interaction rows:
  the state right after the entities were created.\<close>

definition exampleUser :: "ident \<Rightarrow> user" where
  "exampleUser uid =
     \<lparr>u_id = uid, u_email = None, u_firstName = None, u_lastName = None,
      u_profileImageUrl = None, u_createdAt = Some 0, u_updatedAt = Some 0\<rparr>"

definition exampleProject :: "ident \<Rightarrow> ident \<Rightarrow> project" where
  "exampleProject pid uid =
     \<lparr>p_id = pid, p_title = ''t'', p_shortDescription = ''s'',
      p_detailedDescription = ''d'', p_thumbnailUrl = None, p_demoUrl = None,
      p_sourceUrl = None, p_tags = None, p_techStack = None, p_userId = uid,
      p_isFeatured = Some False, p_viewCount = 0, p_likeCount = 0, p_commentCount = 0,
      p_countsLastUpdated = None, p_createdAt = Some 0, p_updatedAt = Some 0\<rparr>"

definition examplePost :: "ident \<Rightarrow> ident \<Rightarrow> communityPost" where
  "examplePost qid uid =
     \<lparr>cp_id = qid, cp_title = ''t'', cp_content = ''c'', cp_isPinned = Some False,
      cp_userId = uid, cp_likeCount = 0, cp_commentCount = 0,
      cp_countsLastUpdated = None, cp_createdAt = Some 0, cp_updatedAt = Some 0\<rparr>"

definition exampleDb :: db where
  "exampleDb =
     \<lparr>users = [exampleUser ''u1'', exampleUser ''u2''],
      projects = [exampleProject ''p1'' ''u1'', exampleProject ''p2'' ''u2''],
      projectLikes = [], projectBookmarks = [],
      communityPosts = [examplePost ''q1'' ''u1''],
      postLikes = [], comments = [], projectViews = []\<rparr>"

text \<open>The same entities after some traffic: one like, one bookmark and one comment on
  project \<open>p1\<close>, one like and one comment on post \<open>q1\<close>, the caches in step.\<close>

definition exampleDb2 :: db where
  "exampleDb2 =
     \<lparr>users = [exampleUser ''u1'', exampleUser ''u2''],
      projects = [(exampleProject ''p1'' ''u1'')\<lparr>p_likeCount := 1, p_commentCount := 1\<rparr>,
                  exampleProject ''p2'' ''u2''],
      projectLikes = [\<lparr>pl_id = ''l1'', pl_projectId = ''p1'', pl_userId = ''u1'',
                        pl_createdAt = Some 1\<rparr>],
      projectBookmarks = [\<lparr>pb_id = ''b1'', pb_projectId = ''p1'', pb_userId = ''u2'',
                            pb_createdAt = Some 1\<rparr>],
      communityPosts = [(examplePost ''q1'' ''u1'')\<lparr>cp_likeCount := 1, cp_commentCount := 1\<rparr>],
      postLikes = [\<lparr>ql_id = ''k1'', ql_postId = ''q1'', ql_userId = ''u2'',
                     ql_createdAt = Some 1\<rparr>],
      comments = [\<lparr>c_id = ''c1'', c_content = ''nice'', c_projectId = Some ''p1'',
                    c_postId = None, c_userId = ''u1'', c_createdAt = Some 1,
                    c_updatedAt = Some 1\<rparr>,
                  \<lparr>c_id = ''c2'', c_content = ''agreed'', c_projectId = None,
                    c_postId = Some ''q1'', c_userId = ''u2'', c_createdAt = Some 2,
                    c_updatedAt = Some 2\<rparr>],
      projectViews = []\<rparr>"

definition exampleComment :: "ident option \<Rightarrow> ident option \<Rightarrow> insertComment" where
  "exampleComment pid qid =
     \<lparr>ic_content = ''hello'', ic_projectId = pid, ic_postId = qid, ic_userId = ''u2''\<rparr>"

text \<open>A database whose caches have drifted from the interaction tables, a store that
  fails on one entity, and a clock.\<close>

definition driftedDb :: db where
  "driftedDb =
     \<lparr>users = [exampleUser ''u1'', exampleUser ''u2''],
      projects = [(exampleProject ''p1'' ''u1'')\<lparr>p_viewCount := 9, p_commentCount := - 3\<rparr>,
                  (exampleProject ''p2'' ''u2'')\<lparr>p_likeCount := 3\<rparr>],
      projectLikes = [\<lparr>pl_id = ''l1'', pl_projectId = ''p1'', pl_userId = ''u1'',
                        pl_createdAt = Some 1\<rparr>,
                      \<lparr>pl_id = ''l2'', pl_projectId = ''p1'', pl_userId = ''u2'',
                        pl_createdAt = Some 2\<rparr>,
                      \<lparr>pl_id = ''l3'', pl_projectId = ''p2'', pl_userId = ''u1'',
                        pl_createdAt = Some 3\<rparr>],
      projectBookmarks = [],
      communityPosts = [(examplePost ''q1'' ''u1'')\<lparr>cp_likeCount := 4\<rparr>],
      postLikes = [\<lparr>ql_id = ''k1'', ql_postId = ''q1'', ql_userId = ''u2'',
                     ql_createdAt = Some 1\<rparr>],
      comments = [\<lparr>c_id = ''c1'', c_content = ''nice'', c_projectId = Some ''p1'',
                    c_postId = None, c_userId = ''u1'', c_createdAt = Some 1,
                    c_updatedAt = Some 1\<rparr>,
                  \<lparr>c_id = ''c2'', c_content = ''agreed'', c_projectId = None,
                    c_postId = Some ''q1'', c_userId = ''u2'', c_createdAt = Some 2,
                    c_updatedAt = Some 2\<rparr>],
      projectViews = [\<lparr>pv_id = ''v1'', pv_projectId = ''p1'', pv_userId = None,
                        pv_ipAddress = Some ''10.0.0.1'', pv_createdAt = Some 1\<rparr>]\<rparr>"

definition faultOn :: "ident \<Rightarrow> faults" where
  "faultOn i =
     \<lparr>listProjectsFault = None,
      projectFault = (\<lambda>j. if j = i then Some ''connection lost'' else None),
      listPostsFault = None,
      postFault = (\<lambda>j. if j = i then Some ''connection lost'' else None)\<rparr>"

definition exampleClock :: "ident \<Rightarrow> timestamp" where
  "exampleClock i = 100"

text \<open>The payloads from which \<open>createProject\<close> and \<open>createCommunityPost\<close> build the
  rows of the first example database.\<close>

definition exampleInsertProject :: "ident \<Rightarrow> insertProject" where
  "exampleInsertProject uid =
     \<lparr>ip_title = ''t'', ip_shortDescription = ''s'', ip_detailedDescription = ''d'',
      ip_thumbnailUrl = None, ip_demoUrl = None, ip_sourceUrl = None, ip_tags = None,
      ip_techStack = None, ip_userId = uid, ip_isFeatured = None\<rparr>"

definition exampleInsertPost :: "ident \<Rightarrow> insertCommunityPost" where
  "exampleInsertPost uid =
     \<lparr>icp_title = ''t'', icp_content = ''c'', icp_isPinned = None, icp_userId = uid\<rparr>"

section \<open>Evaluation rules\<close>

lemmas ex_defs = exampleDb_def exampleUser_def exampleProject_def examplePost_def
lemmas ex2_defs = exampleDb2_def exampleUser_def exampleProject_def examplePost_def
lemmas store_defs = update_where_def delete_where_def rowCount_def count_where_def
  user_exists_def project_exists_def post_exists_def
lemmas drift_defs = driftedDb_def exampleUser_def exampleProject_def examplePost_def
lemmas sync_defs = syncAllCounts_def syncProjectCounts_def syncCommunityPostCounts_def
  recountProject_def recountPost_def syncSingleProjectCounts_def syncSinglePostCounts_def
  noFaults_def faultOn_def exampleClock_def

section \<open>Likes\<close>

text \<open>
  C1 (counterexample). The claim says a second like of the same (project, user) pair
  returns false and leaves the counter alone. In the example database user \<open>u1\<close> likes
  project \<open>p1\<close> twice, with no store failure: the second call returns true as well, the
  cached counter goes from 1 to 2, and the like table holds two rows for the pair.
\<close>

theorem recordLike_twice_counterexample:
  "fst (likeProject ''p1'' ''u1'' ''l2'' 2 None
          (snd (likeProject ''p1'' ''u1'' ''l1'' 1 None exampleDb)))
   \<and> map p_likeCount (projects (snd (likeProject ''p1'' ''u1'' ''l1'' 1 None exampleDb))) = [1, 0]
   \<and> map p_likeCount (projects (snd (likeProject ''p1'' ''u1'' ''l2'' 2 None
         (snd (likeProject ''p1'' ''u1'' ''l1'' 1 None exampleDb))))) = [2, 0]
   \<and> map pl_projectId (projectLikes (snd (likeProject ''p1'' ''u1'' ''l2'' 2 None
         (snd (likeProject ''p1'' ''u1'' ''l1'' 1 None exampleDb))))) = [''p1'', ''p1'']
   \<and> map pl_userId (projectLikes (snd (likeProject ''p1'' ''u1'' ''l2'' 2 None
         (snd (likeProject ''p1'' ''u1'' ''l1'' 1 None exampleDb))))) = [''u1'', ''u1'']"
  by (simp add: likeProject_def insert_projectLike_def ex_defs store_defs)

text \<open>
  C1 (amended). The like tables have no uniqueness constraint on (target, user). A call
  of \<open>likeProject\<close> or \<open>likeCommunityPost\<close> whose INSERT is accepted (fresh key,
  existing target and user) and whose counter UPDATE succeeds returns true, appends one
  like row and adds 1 to the target's cached \<open>likeCount\<close>, whether or not the pair
  already has a like row; so a second call for the same pair counts again. Whenever
  the call returns false, the cached \<open>likeCount\<close> of every target is unchanged.
\<close>

theorem recordLike_counts_every_accepted_call:
  "(newId \<notin> set (map pl_id (projectLikes d)) \<and> project_exists d pid \<and> user_exists d uid \<longrightarrow>
      likeProject pid uid newId now None d =
        (True,
         d\<lparr>projectLikes := projectLikes d @
              [\<lparr>pl_id = newId, pl_projectId = pid, pl_userId = uid, pl_createdAt = Some now\<rparr>],
           projects := map (\<lambda>p. if p_id p = pid then p\<lparr>p_likeCount := p_likeCount p + 1\<rparr> else p)
                         (projects d)\<rparr>))
   \<and> (\<not> fst (likeProject pid uid newId now updateFault d) \<longrightarrow>
        projects (snd (likeProject pid uid newId now updateFault d)) = projects d)
   \<and> (newId \<notin> set (map ql_id (postLikes d)) \<and> post_exists d qid \<and> user_exists d uid \<longrightarrow>
      likeCommunityPost qid uid newId now None d =
        (True,
         d\<lparr>postLikes := postLikes d @
              [\<lparr>ql_id = newId, ql_postId = qid, ql_userId = uid, ql_createdAt = Some now\<rparr>],
           communityPosts :=
             map (\<lambda>q. if cp_id q = qid then q\<lparr>cp_likeCount := cp_likeCount q + 1\<rparr> else q)
               (communityPosts d)\<rparr>))
   \<and> (\<not> fst (likeCommunityPost qid uid newId now updateFault d) \<longrightarrow>
        communityPosts (snd (likeCommunityPost qid uid newId now updateFault d)) =
          communityPosts d)"
  by (auto simp: likeProject_def insert_projectLike_def likeCommunityPost_def
      insert_postLike_def update_where_def split: option.splits)

theorem recordLike_counts_every_accepted_call_witness:
  "isProjectLiked ''p1'' ''u1'' (snd (likeProject ''p1'' ''u1'' ''l1'' 1 None exampleDb))
   \<and> fst (likeProject ''p1'' ''u1'' ''l2'' 2 None
          (snd (likeProject ''p1'' ''u1'' ''l1'' 1 None exampleDb)))
   \<and> map p_likeCount (projects (snd (likeProject ''p1'' ''u1'' ''l2'' 2 None
         (snd (likeProject ''p1'' ''u1'' ''l1'' 1 None exampleDb))))) = [2, 0]
   \<and> \<not> fst (likeProject ''p9'' ''u1'' ''l1'' 1 None exampleDb)
   \<and> projects (snd (likeProject ''p9'' ''u1'' ''l1'' 1 None exampleDb)) = projects exampleDb
   \<and> \<not> fst (likeProject ''p1'' ''u1'' ''l1'' 1 (Some ''connection lost'') exampleDb)
   \<and> projects (snd (likeProject ''p1'' ''u1'' ''l1'' 1 (Some ''connection lost'') exampleDb))
       = projects exampleDb
   \<and> map pl_id (projectLikes
         (snd (likeProject ''p1'' ''u1'' ''l1'' 1 (Some ''connection lost'') exampleDb))) = [''l1'']
   \<and> fst (likeCommunityPost ''q1'' ''u2'' ''k1'' 1 None exampleDb)
   \<and> map cp_likeCount
        (communityPosts (snd (likeCommunityPost ''q1'' ''u2'' ''k1'' 1 None exampleDb))) = [1]
   \<and> \<not> fst (likeCommunityPost ''q1'' ''u7'' ''k1'' 1 None exampleDb)
   \<and> communityPosts (snd (likeCommunityPost ''q1'' ''u7'' ''k1'' 1 None exampleDb))
       = communityPosts exampleDb"
  using recordLike_counts_every_accepted_call
          [where pid = "''p1''" and uid = "''u1''" and newId = "''l2''" and now = 2
             and d = "snd (likeProject ''p1'' ''u1'' ''l1'' 1 None exampleDb)"
             and qid = "''q1''" and updateFault = None]
        recordLike_counts_every_accepted_call
          [where pid = "''p9''" and uid = "''u1''" and newId = "''l1''" and now = 1
             and d = exampleDb and qid = "''q1''" and updateFault = None]
        recordLike_counts_every_accepted_call
          [where pid = "''p1''" and uid = "''u1''" and newId = "''l1''" and now = 1
             and d = exampleDb and qid = "''q1''" and updateFault = "Some ''connection lost''"]
        recordLike_counts_every_accepted_call
          [where pid = "''p1''" and uid = "''u2''" and newId = "''k1''" and now = 1
             and d = exampleDb and qid = "''q1''" and updateFault = None]
        recordLike_counts_every_accepted_call
          [where pid = "''p1''" and uid = "''u7''" and newId = "''k1''" and now = 1
             and d = exampleDb and qid = "''q1''" and updateFault = None]
  by (simp add: likeProject_def insert_projectLike_def likeCommunityPost_def
      insert_postLike_def isProjectLiked_def ex_defs store_defs)

text \<open>
  C6. \<open>unlikeProject\<close> and \<open>unlikeCommunityPost\<close> return true exactly when a like row of
  the pair existed. Only then is the target's cached \<open>likeCount\<close> lowered, by 1, and the
  matching rows are gone; with no matching row the result is false and the database is
  left as it was.
\<close>

theorem removeLike_decrements_only_on_delete:
  "(fst (unlikeProject pid uid d) =
      (\<exists>l \<in> set (projectLikes d). pl_projectId l = pid \<and> pl_userId l = uid))
   \<and> (\<not> fst (unlikeProject pid uid d) \<longrightarrow> snd (unlikeProject pid uid d) = d)
   \<and> (fst (unlikeProject pid uid d) \<longrightarrow>
        snd (unlikeProject pid uid d) =
          d\<lparr>projectLikes :=
               filter (\<lambda>l. \<not> (pl_projectId l = pid \<and> pl_userId l = uid)) (projectLikes d),
            projects := map (\<lambda>p. if p_id p = pid then p\<lparr>p_likeCount := p_likeCount p - 1\<rparr> else p)
                          (projects d)\<rparr>)
   \<and> \<not> isProjectLiked pid uid (snd (unlikeProject pid uid d))
   \<and> (fst (unlikeCommunityPost qid uid d) =
      (\<exists>l \<in> set (postLikes d). ql_postId l = qid \<and> ql_userId l = uid))
   \<and> (\<not> fst (unlikeCommunityPost qid uid d) \<longrightarrow> snd (unlikeCommunityPost qid uid d) = d)
   \<and> (fst (unlikeCommunityPost qid uid d) \<longrightarrow>
        snd (unlikeCommunityPost qid uid d) =
          d\<lparr>postLikes :=
               filter (\<lambda>l. \<not> (ql_postId l = qid \<and> ql_userId l = uid)) (postLikes d),
            communityPosts :=
              map (\<lambda>q. if cp_id q = qid then q\<lparr>cp_likeCount := cp_likeCount q - 1\<rparr> else q)
                (communityPosts d)\<rparr>)"
proof -
  have none: "filter P xs = xs" if "\<not> (\<exists>x \<in> set xs. \<not> P x)" for P :: "'a \<Rightarrow> bool" and xs
    using that by (induction xs) auto
  have pos: "(0 < length (filter P xs)) = (\<exists>x \<in> set xs. P x)" for P :: "'a \<Rightarrow> bool" and xs
    by (induction xs) auto
  show ?thesis
    by (auto simp: unlikeProject_def unlikeCommunityPost_def isProjectLiked_def Let_def
        rowCount_def delete_where_def update_where_def pos filter_empty_conv
        intro!: none[symmetric] cong: db.fold_congs)
qed

theorem removeLike_decrements_only_on_delete_witness:
  "fst (unlikeProject ''p1'' ''u1'' exampleDb2)
   \<and> map p_likeCount (projects (snd (unlikeProject ''p1'' ''u1'' exampleDb2))) = [0, 0]
   \<and> projectLikes (snd (unlikeProject ''p1'' ''u1'' exampleDb2)) = []
   \<and> \<not> fst (unlikeProject ''p1'' ''u2'' exampleDb2)
   \<and> snd (unlikeProject ''p1'' ''u2'' exampleDb2) = exampleDb2
   \<and> fst (unlikeCommunityPost ''q1'' ''u2'' exampleDb2)
   \<and> map cp_likeCount (communityPosts (snd (unlikeCommunityPost ''q1'' ''u2'' exampleDb2))) = [0]
   \<and> \<not> fst (unlikeCommunityPost ''q1'' ''u1'' exampleDb2)
   \<and> snd (unlikeCommunityPost ''q1'' ''u1'' exampleDb2) = exampleDb2"
  using removeLike_decrements_only_on_delete [of "''p1''" "''u1''" exampleDb2 "''q1''"]
        removeLike_decrements_only_on_delete [of "''p1''" "''u2''" exampleDb2 "''q1''"]
  by (simp add: ex2_defs)

section \<open>Bookmarks\<close>

text \<open>
  C9. \<open>bookmarkProject\<close> and \<open>unbookmarkProject\<close> change nothing but the bookmark table:
  a row is appended when the insert is accepted, the rows of the pair are deleted, and
  every other table, in particular every field of every project and post row, is the
  same before and after.
\<close>

theorem bookmarks_touch_no_counter:
  "snd (bookmarkProject pid uid newId now d) =
     d\<lparr>projectBookmarks := projectBookmarks (snd (bookmarkProject pid uid newId now d))\<rparr>
   \<and> projectBookmarks (snd (bookmarkProject pid uid newId now d)) =
       (if fst (bookmarkProject pid uid newId now d)
        then projectBookmarks d @
               [\<lparr>pb_id = newId, pb_projectId = pid, pb_userId = uid, pb_createdAt = Some now\<rparr>]
        else projectBookmarks d)
   \<and> projects (snd (bookmarkProject pid uid newId now d)) = projects d
   \<and> communityPosts (snd (bookmarkProject pid uid newId now d)) = communityPosts d
   \<and> snd (unbookmarkProject pid uid d) =
       d\<lparr>projectBookmarks :=
            filter (\<lambda>b. \<not> (pb_projectId b = pid \<and> pb_userId b = uid)) (projectBookmarks d)\<rparr>
   \<and> projects (snd (unbookmarkProject pid uid d)) = projects d
   \<and> communityPosts (snd (unbookmarkProject pid uid d)) = communityPosts d"
  by (simp add: bookmarkProject_def insert_projectBookmark_def unbookmarkProject_def
      delete_where_def)

theorem bookmarks_touch_no_counter_witness:
  "fst (bookmarkProject ''p2'' ''u1'' ''b2'' 3 exampleDb2)
   \<and> length (projectBookmarks (snd (bookmarkProject ''p2'' ''u1'' ''b2'' 3 exampleDb2))) = 2
   \<and> projects (snd (bookmarkProject ''p2'' ''u1'' ''b2'' 3 exampleDb2)) = projects exampleDb2
   \<and> fst (unbookmarkProject ''p1'' ''u2'' exampleDb2)
   \<and> projectBookmarks (snd (unbookmarkProject ''p1'' ''u2'' exampleDb2)) = []
   \<and> projects (snd (unbookmarkProject ''p1'' ''u2'' exampleDb2)) = projects exampleDb2"
  using bookmarks_touch_no_counter [of "''p2''" "''u1''" "''b2''" 3 exampleDb2]
        bookmarks_touch_no_counter [of "''p1''" "''u2''" "''b2''" 3 exampleDb2]
  by (simp add: bookmarkProject_def insert_projectBookmark_def unbookmarkProject_def
      ex2_defs store_defs)

section \<open>Views\<close>

text \<open>The older \<open>incrementProjectViews\<close> only adds 1 to the cached counter of the
  project; it writes no view row.\<close>

lemma incrementProjectViews_counter_only:
  "incrementProjectViews pid d =
     d\<lparr>projects := map (\<lambda>p. if p_id p = pid then p\<lparr>p_viewCount := p_viewCount p + 1\<rparr> else p)
                     (projects d)\<rparr>"
  by (simp add: incrementProjectViews_def update_where_def)

text \<open>
  C4. Every call of \<open>trackProjectView\<close> appends exactly one row to \<open>projectViews\<close> and
  adds exactly 1 to the cached \<open>viewCount\<close> of the project, whoever the viewer is and
  however often they viewed before: the number of view rows of the project grows by 1
  with each call.
\<close>

theorem recordView_appends_and_increments:
  "trackProjectView pid uid ip newId now d =
     d\<lparr>projectViews := projectViews d @
          [\<lparr>pv_id = newId, pv_projectId = pid, pv_userId = uid, pv_ipAddress = ip,
            pv_createdAt = Some now\<rparr>],
       projects := map (\<lambda>p. if p_id p = pid then p\<lparr>p_viewCount := p_viewCount p + 1\<rparr> else p)
                     (projects d)\<rparr>
   \<and> count_where (\<lambda>v. pv_projectId v = pid)
         (projectViews (trackProjectView pid uid ip newId now d)) =
       count_where (\<lambda>v. pv_projectId v = pid) (projectViews d) + 1
   \<and> map p_viewCount (filter (\<lambda>p. p_id p = pid) (projects (trackProjectView pid uid ip newId now d)))
       = map (\<lambda>p. p_viewCount p + 1) (filter (\<lambda>p. p_id p = pid) (projects d))"
  by (simp add: trackProjectView_def update_where_def count_where_def Let_def filter_map
      comp_def cong: filter_cong)

theorem recordView_appends_and_increments_witness:
  "map p_viewCount (projects (trackProjectView ''p1'' (Some ''u2'') None ''v2'' 5
      (trackProjectView ''p1'' (Some ''u2'') None ''v1'' 4 exampleDb2))) = [2, 0]
   \<and> map pv_projectId (projectViews (trackProjectView ''p1'' (Some ''u2'') None ''v2'' 5
      (trackProjectView ''p1'' (Some ''u2'') None ''v1'' 4 exampleDb2))) = [''p1'', ''p1'']"
  using recordView_appends_and_increments [of "''p1''" "Some ''u2''" None "''v1''" 4 exampleDb2]
        recordView_appends_and_increments [of "''p1''" "Some ''u2''" None "''v2''" 5
          "trackProjectView ''p1'' (Some ''u2'') None ''v1'' 4 exampleDb2"]
  by (simp add: ex2_defs)

section \<open>Comments\<close>

text \<open>
  C10. When the store accepts the row (fresh key, existing user, existing parent where
  one is given), \<open>createComment\<close> appends the new comment and returns it. The counter
  update looks at \<open>projectId\<close> first: if it is truthy only that project's
  \<open>commentCount\<close> grows by 1, even when \<open>postId\<close> is given too; otherwise, if \<open>postId\<close>
  is truthy, only that post's \<open>commentCount\<close> grows by 1; otherwise the comment is
  inserted and no counter changes.
\<close>

theorem createComment_branches_on_projectId_first:
  assumes "newId \<notin> set (map c_id (comments d))"
    and "user_exists d (ic_userId cm)"
    and "\<forall>p. ic_projectId cm = Some p \<longrightarrow> project_exists d p"
    and "\<forall>q. ic_postId cm = Some q \<longrightarrow> post_exists d q"
    and "row = \<lparr>c_id = newId, c_content = ic_content cm, c_projectId = ic_projectId cm,
                c_postId = ic_postId cm, c_userId = ic_userId cm,
                c_createdAt = Some now, c_updatedAt = Some now\<rparr>"
  shows "createComment cm newId now d =
           Inr (row,
                d\<lparr>comments := comments d @ [row],
                  projects :=
                    (if truthy (ic_projectId cm)
                     then map (\<lambda>p. if Some (p_id p) = ic_projectId cm
                                    then p\<lparr>p_commentCount := p_commentCount p + 1\<rparr> else p)
                            (projects d)
                     else projects d),
                  communityPosts :=
                    (if \<not> truthy (ic_projectId cm) \<and> truthy (ic_postId cm)
                     then map (\<lambda>q. if Some (cp_id q) = ic_postId cm
                                    then q\<lparr>cp_commentCount := cp_commentCount q + 1\<rparr> else q)
                            (communityPosts d)
                     else communityPosts d)\<rparr>)"
  using assms
  by (auto simp: createComment_def insert_comment_def Let_def update_where_def
      split: option.splits)

theorem createComment_branches_on_projectId_first_witness:
  "(case createComment (exampleComment (Some ''p1'') (Some ''q1'')) ''c3'' 9 exampleDb2 of
      Inl e \<Rightarrow> False
    | Inr rd \<Rightarrow> c_id (fst rd) = ''c3'' \<and> map c_id (comments (snd rd)) = [''c1'', ''c2'', ''c3'']
        \<and> map p_commentCount (projects (snd rd)) = [2, 0]
        \<and> map cp_commentCount (communityPosts (snd rd)) = [1])
   \<and> (case createComment (exampleComment None (Some ''q1'')) ''c3'' 9 exampleDb2 of
      Inl e \<Rightarrow> False
    | Inr rd \<Rightarrow> c_id (fst rd) = ''c3'' \<and> map c_id (comments (snd rd)) = [''c1'', ''c2'', ''c3'']
        \<and> map p_commentCount (projects (snd rd)) = [1, 0]
        \<and> map cp_commentCount (communityPosts (snd rd)) = [2])
   \<and> (case createComment (exampleComment None None) ''c3'' 9 exampleDb2 of
      Inl e \<Rightarrow> False
    | Inr rd \<Rightarrow> c_id (fst rd) = ''c3'' \<and> map c_id (comments (snd rd)) = [''c1'', ''c2'', ''c3'']
        \<and> map p_commentCount (projects (snd rd)) = [1, 0]
        \<and> map cp_commentCount (communityPosts (snd rd)) = [1])"
  using createComment_branches_on_projectId_first
          [of "''c3''" exampleDb2 "exampleComment (Some ''p1'') (Some ''q1'')" _ 9, OF _ _ _ _ refl]
        createComment_branches_on_projectId_first
          [of "''c3''" exampleDb2 "exampleComment None (Some ''q1'')" _ 9, OF _ _ _ _ refl]
        createComment_branches_on_projectId_first
          [of "''c3''" exampleDb2 "exampleComment None None" _ 9, OF _ _ _ _ refl]
  by (simp add: exampleComment_def ex2_defs store_defs)

text \<open>
  C7. \<open>deleteComment\<close> selects the comment by id and owner before deleting. With no such
  row (unknown id, or another user's comment) it returns false and the database is
  unchanged. Otherwise it returns true, deletes the row, and lowers by 1 the
  \<open>commentCount\<close> of the parent read from the row selected beforehand (the project if
  \<open>projectId\<close> is truthy, else the post if \<open>postId\<close> is). A comment of another user is
  never removed.
\<close>

theorem removeComment_owner_only:
  "(filter (\<lambda>r. c_id r = cid \<and> c_userId r = uid) (comments d) = [] \<longrightarrow>
      deleteComment cid uid d = (False, d))
   \<and> (\<forall>cm rest. filter (\<lambda>r. c_id r = cid \<and> c_userId r = uid) (comments d) = cm # rest \<longrightarrow>
        deleteComment cid uid d =
          (True,
           d\<lparr>comments := filter (\<lambda>r. \<not> (c_id r = cid \<and> c_userId r = uid)) (comments d),
             projects :=
               (if truthy (c_projectId cm)
                then map (\<lambda>p. if Some (p_id p) = c_projectId cm
                               then p\<lparr>p_commentCount := p_commentCount p - 1\<rparr> else p)
                       (projects d)
                else projects d),
             communityPosts :=
               (if \<not> truthy (c_projectId cm) \<and> truthy (c_postId cm)
                then map (\<lambda>q. if Some (cp_id q) = c_postId cm
                               then q\<lparr>cp_commentCount := cp_commentCount q - 1\<rparr> else q)
                       (communityPosts d)
                else communityPosts d)\<rparr>))
   \<and> (\<forall>r \<in> set (comments d). c_userId r \<noteq> uid \<longrightarrow> r \<in> set (comments (snd (deleteComment cid uid d))))"
  by (auto simp: deleteComment_def Let_def rowCount_def delete_where_def update_where_def
      split: list.splits)

theorem removeComment_owner_only_witness:
  "deleteComment ''c2'' ''u1'' exampleDb2 = (False, exampleDb2)
   \<and> deleteComment ''c9'' ''u1'' exampleDb2 = (False, exampleDb2)
   \<and> fst (deleteComment ''c2'' ''u2'' exampleDb2)
   \<and> map c_id (comments (snd (deleteComment ''c2'' ''u2'' exampleDb2))) = [''c1'']
   \<and> map cp_commentCount (communityPosts (snd (deleteComment ''c2'' ''u2'' exampleDb2))) = [0]
   \<and> map p_commentCount (projects (snd (deleteComment ''c2'' ''u2'' exampleDb2))) = [1, 0]
   \<and> fst (deleteComment ''c1'' ''u1'' exampleDb2)
   \<and> map p_commentCount (projects (snd (deleteComment ''c1'' ''u1'' exampleDb2))) = [0, 0]
   \<and> \<not> fst (deleteComment ''c2'' ''u2'' (snd (deleteComment ''c2'' ''u2'' exampleDb2)))
   \<and> map cp_commentCount (communityPosts (snd (deleteComment ''c2'' ''u2''
         (snd (deleteComment ''c2'' ''u2'' exampleDb2))))) = [0]"
  using removeComment_owner_only [of "''c2''" "''u1''" exampleDb2]
        removeComment_owner_only [of "''c9''" "''u1''" exampleDb2]
        removeComment_owner_only [of "''c2''" "''u2''" exampleDb2]
        removeComment_owner_only [of "''c1''" "''u1''" exampleDb2]
        removeComment_owner_only [of "''c2''" "''u2''" "snd (deleteComment ''c2'' ''u2'' exampleDb2)"]
  by (simp add: deleteComment_def ex2_defs store_defs)

section \<open>Reconciler\<close>

subsection \<open>One entity\<close>

lemma recountProject_eq:
  "recountProject now i d =
     d\<lparr>projects := map (\<lambda>p. if p_id p = i then projectRecounted d now p else p) (projects d)\<rparr>"
  by (simp add: recountProject_def projectRecounted_def update_where_def Let_def
      cong: map_cong)

lemma recountPost_eq:
  "recountPost now i d =
     d\<lparr>communityPosts :=
         map (\<lambda>q. if cp_id q = i then postRecounted d now q else q) (communityPosts d)\<rparr>"
  by (simp add: recountPost_def postRecounted_def update_where_def Let_def cong: map_cong)

lemma projectRecounted_id [simp]: "p_id (projectRecounted d now p) = p_id p"
  by (simp add: projectRecounted_def)

lemma postRecounted_id [simp]: "cp_id (postRecounted d now q) = cp_id q"
  by (simp add: postRecounted_def)

lemma projectRecounted_twice [simp]:
  "projectRecounted d now (projectRecounted d now' p) = projectRecounted d now p"
  by (simp add: projectRecounted_def)

lemma postRecounted_twice [simp]:
  "postRecounted d now (postRecounted d now' q) = postRecounted d now q"
  by (simp add: postRecounted_def)

lemma projectRecounted_cong:
  "projectViews d' = projectViews d \<Longrightarrow> projectLikes d' = projectLikes d \<Longrightarrow>
   comments d' = comments d \<Longrightarrow> projectRecounted d' = projectRecounted d"
  by (simp add: projectRecounted_def fun_eq_iff)

lemma postRecounted_cong:
  "postLikes d' = postLikes d \<Longrightarrow> comments d' = comments d \<Longrightarrow>
   postRecounted d' = postRecounted d"
  by (simp add: postRecounted_def fun_eq_iff)

lemma recountProject_row:
  assumes "p \<in> set (projects (recountProject now pid d))" and "p_id p = pid"
  shows "p_viewCount p = count_where (\<lambda>v. pv_projectId v = pid) (projectViews d)
       \<and> p_likeCount p = count_where (\<lambda>l. pl_projectId l = pid) (projectLikes d)
       \<and> p_commentCount p = count_where (\<lambda>c. c_projectId c = Some pid) (comments d)
       \<and> p_countsLastUpdated p = Some now"
proof -
  from assms(1) obtain x where x: "x \<in> set (projects d)"
    and p: "p = (if p_id x = pid then projectRecounted d now x else x)"
    by (auto simp: recountProject_eq)
  from p assms(2) have "p_id x = pid" by (simp split: if_splits)
  with p have "p = projectRecounted d now x" by simp
  with \<open>p_id x = pid\<close> show ?thesis by (simp add: projectRecounted_def)
qed

lemma recountPost_row:
  assumes "q \<in> set (communityPosts (recountPost now qid d))" and "cp_id q = qid"
  shows "cp_likeCount q = count_where (\<lambda>l. ql_postId l = qid) (postLikes d)
       \<and> cp_commentCount q = count_where (\<lambda>c. c_postId c = Some qid) (comments d)
       \<and> cp_countsLastUpdated q = Some now"
proof -
  from assms(1) obtain x where x: "x \<in> set (communityPosts d)"
    and q: "q = (if cp_id x = qid then postRecounted d now x else x)"
    by (auto simp: recountPost_eq)
  from q assms(2) have "cp_id x = qid" by (simp split: if_splits)
  with q have "q = postRecounted d now x" by simp
  with \<open>cp_id x = qid\<close> show ?thesis by (simp add: postRecounted_def)
qed

lemma recountProject_frame:
  "recountProject now pid d = d\<lparr>projects := projects (recountProject now pid d)\<rparr>
   \<and> map p_id (projects (recountProject now pid d)) = map p_id (projects d)"
  by (simp add: recountProject_eq comp_def cong: map_cong)

lemma recountPost_frame:
  "recountPost now qid d = d\<lparr>communityPosts := communityPosts (recountPost now qid d)\<rparr>
   \<and> map cp_id (communityPosts (recountPost now qid d)) = map cp_id (communityPosts d)"
  by (simp add: recountPost_eq comp_def cong: map_cong)

text \<open>
  C2. When \<open>syncSingleProjectCounts\<close> completes (which it does unless the store fails
  on that project), every project row with the given id has \<open>viewCount\<close>, \<open>likeCount\<close>
  and \<open>commentCount\<close> equal to the number of rows of that project in \<open>projectViews\<close>,
  \<open>projectLikes\<close> and \<open>comments\<close>, whatever the cached values were, and
  \<open>countsLastUpdated\<close> is the time of the call; no other table and no row id changes.
  The same holds for \<open>syncSinglePostCounts\<close> with \<open>postLikes\<close> and \<open>comments\<close>.
\<close>

theorem syncSingle_counts_converge:
  "(case syncSingleProjectCounts f now pid d of
      Inl e \<Rightarrow> projectFault f pid \<noteq> None
    | Inr d' \<Rightarrow>
        projectFault f pid = None
        \<and> d' = d\<lparr>projects := projects d'\<rparr>
        \<and> map p_id (projects d') = map p_id (projects d)
        \<and> (\<forall>p \<in> set (projects d'). p_id p = pid \<longrightarrow>
              p_viewCount p = count_where (\<lambda>v. pv_projectId v = pid) (projectViews d')
            \<and> p_likeCount p = count_where (\<lambda>l. pl_projectId l = pid) (projectLikes d')
            \<and> p_commentCount p = count_where (\<lambda>c. c_projectId c = Some pid) (comments d')
            \<and> p_countsLastUpdated p = Some now))
   \<and> (case syncSinglePostCounts f now qid d of
      Inl e \<Rightarrow> postFault f qid \<noteq> None
    | Inr d' \<Rightarrow>
        postFault f qid = None
        \<and> d' = d\<lparr>communityPosts := communityPosts d'\<rparr>
        \<and> map cp_id (communityPosts d') = map cp_id (communityPosts d)
        \<and> (\<forall>q \<in> set (communityPosts d'). cp_id q = qid \<longrightarrow>
              cp_likeCount q = count_where (\<lambda>l. ql_postId l = qid) (postLikes d')
            \<and> cp_commentCount q = count_where (\<lambda>c. c_postId c = Some qid) (comments d')
            \<and> cp_countsLastUpdated q = Some now))"
proof -
  have tabs: "projectViews (recountProject now pid d) = projectViews d"
    "projectLikes (recountProject now pid d) = projectLikes d"
    "comments (recountProject now pid d) = comments d"
    "postLikes (recountPost now qid d) = postLikes d"
    "comments (recountPost now qid d) = comments d"
    by (simp_all add: recountProject_eq recountPost_eq)
  show ?thesis
    using recountProject_row [of _ now pid d] recountPost_row [of _ now qid d]
      recountProject_frame [of now pid d] recountPost_frame [of now qid d]
    by (simp add: syncSingleProjectCounts_def syncSinglePostCounts_def tabs
        split: option.splits)
qed

theorem syncSingle_counts_converge_witness:
  "(case syncSingleProjectCounts noFaults 50 ''p1'' driftedDb of
      Inl e \<Rightarrow> False
    | Inr d' \<Rightarrow> map p_viewCount (projects d') = [1, 0]
        \<and> map p_likeCount (projects d') = [2, 3]
        \<and> map p_commentCount (projects d') = [1, 0]
        \<and> map p_countsLastUpdated (projects d') = [Some 50, None])
   \<and> (case syncSinglePostCounts noFaults 50 ''q1'' driftedDb of
      Inl e \<Rightarrow> False
    | Inr d' \<Rightarrow> map cp_likeCount (communityPosts d') = [1]
        \<and> map cp_commentCount (communityPosts d') = [1]
        \<and> map cp_countsLastUpdated (communityPosts d') = [Some 50])"
  using syncSingle_counts_converge
          [where f = noFaults and now = 50 and pid = "''p1''" and d = driftedDb and qid = "''q1''"]
  by (simp add: sync_defs drift_defs store_defs)

subsection \<open>The batch\<close>

lemma fold_recountProject:
  "fold (\<lambda>i. recountProject (clock i) i) ids d =
     d\<lparr>projects :=
         map (\<lambda>p. if p_id p \<in> set ids then projectRecounted d (clock (p_id p)) p else p)
           (projects d)\<rparr>"
proof (induction ids arbitrary: d)
  case Nil
  show ?case by simp
next
  case (Cons i ids)
  let ?d1 = "recountProject (clock i) i d"
  have same: "projectRecounted ?d1 = projectRecounted d"
    by (rule projectRecounted_cong) (simp_all add: recountProject_eq)
  show ?case
    unfolding fold_Cons comp_def Cons.IH same
    by (simp add: recountProject_eq cong: map_cong)
qed

lemma fold_recountPost:
  "fold (\<lambda>i. recountPost (clock i) i) ids d =
     d\<lparr>communityPosts :=
         map (\<lambda>q. if cp_id q \<in> set ids then postRecounted d (clock (cp_id q)) q else q)
           (communityPosts d)\<rparr>"
proof (induction ids arbitrary: d)
  case Nil
  show ?case by simp
next
  case (Cons i ids)
  let ?d1 = "recountPost (clock i) i d"
  have same: "postRecounted ?d1 = postRecounted d"
    by (rule postRecounted_cong) (simp_all add: recountPost_eq)
  show ?case
    unfolding fold_Cons comp_def Cons.IH same
    by (simp add: recountPost_eq cong: map_cong)
qed

lemma syncProjectLoop_ok:
  "\<forall>i \<in> set ids. projectFault f i = None \<Longrightarrow>
   syncProjectLoop f clock ids n d =
     (Inr (n + length ids), fold (\<lambda>i. recountProject (clock i) i) ids d)"
  by (induction ids arbitrary: n d) simp_all

lemma syncProjectLoop_fault:
  "\<forall>i \<in> set before. projectFault f i = None \<Longrightarrow> projectFault f pid = Some m \<Longrightarrow>
   syncProjectLoop f clock (before @ pid # rest) n d =
     (Inl (StoreFault m), fold (\<lambda>i. recountProject (clock i) i) before d)"
  by (induction before arbitrary: n d) simp_all

lemma syncProjectLoop_Inr:
  "syncProjectLoop f clock ids n d = (Inr k, d') \<Longrightarrow>
   (\<forall>i \<in> set ids. projectFault f i = None)"
  by (induction ids arbitrary: n d) (auto split: option.splits)

lemma syncPostLoop_ok:
  "\<forall>i \<in> set ids. postFault f i = None \<Longrightarrow>
   syncPostLoop f clock ids n d =
     (Inr (n + length ids), fold (\<lambda>i. recountPost (clock i) i) ids d)"
  by (induction ids arbitrary: n d) simp_all

lemma syncPostLoop_fault:
  "\<forall>i \<in> set before. postFault f i = None \<Longrightarrow> postFault f qid = Some m \<Longrightarrow>
   syncPostLoop f clock (before @ qid # rest) n d =
     (Inl (StoreFault m), fold (\<lambda>i. recountPost (clock i) i) before d)"
  by (induction before arbitrary: n d) simp_all

lemma syncPostLoop_Inr:
  "syncPostLoop f clock ids n d = (Inr k, d') \<Longrightarrow>
   (\<forall>i \<in> set ids. postFault f i = None)"
  by (induction ids arbitrary: n d) (auto split: option.splits)

lemma syncProjectCounts_Inr:
  assumes "syncProjectCounts f clock d = (Inr n, d1)"
  shows "n = length (projects d)
       \<and> d1 = d\<lparr>projects := map (\<lambda>p. projectRecounted d (clock (p_id p)) p) (projects d)\<rparr>"
proof -
  from assms have l: "listProjectsFault f = None"
    and loop: "syncProjectLoop f clock (map p_id (projects d)) 0 d = (Inr n, d1)"
    by (auto simp: syncProjectCounts_def split: option.splits)
  from loop have "\<forall>i \<in> set (map p_id (projects d)). projectFault f i = None"
    by (rule syncProjectLoop_Inr)
  from syncProjectLoop_ok [OF this, of clock 0 d] loop show ?thesis
    by (simp add: fold_recountProject cong: map_cong)
qed

lemma syncCommunityPostCounts_Inr:
  assumes "syncCommunityPostCounts f clock d = (Inr n, d1)"
  shows "n = length (communityPosts d)
       \<and> d1 = d\<lparr>communityPosts :=
                  map (\<lambda>q. postRecounted d (clock (cp_id q)) q) (communityPosts d)\<rparr>"
proof -
  from assms have l: "listPostsFault f = None"
    and loop: "syncPostLoop f clock (map cp_id (communityPosts d)) 0 d = (Inr n, d1)"
    by (auto simp: syncCommunityPostCounts_def split: option.splits)
  from loop have "\<forall>i \<in> set (map cp_id (communityPosts d)). postFault f i = None"
    by (rule syncPostLoop_Inr)
  from syncPostLoop_ok [OF this, of clock 0 d] loop show ?thesis
    by (simp add: fold_recountPost cong: map_cong)
qed

lemma syncAllCounts_no_errors:
  assumes "errors (fst (syncAllCounts f clock d)) = []"
  shows "snd (syncAllCounts f clock d) =
           d\<lparr>projects := map (\<lambda>p. projectRecounted d (clock (p_id p)) p) (projects d),
             communityPosts :=
               map (\<lambda>q. postRecounted d (clock (cp_id q)) q) (communityPosts d)\<rparr>"
proof -
  obtain r1 d1 where p: "syncProjectCounts f clock d = (r1, d1)" by (cases "syncProjectCounts f clock d")
  obtain r2 d2 where q: "syncCommunityPostCounts f clock d1 = (r2, d2)"
    by (cases "syncCommunityPostCounts f clock d1")
  from assms p q obtain n m where r: "r1 = Inr n" "r2 = Inr m"
    by (auto simp: syncAllCounts_def split: sum.splits)
  from syncProjectCounts_Inr [OF p [unfolded r]]
  have d1: "d1 = d\<lparr>projects := map (\<lambda>p. projectRecounted d (clock (p_id p)) p) (projects d)\<rparr>"
    by simp
  have same: "postRecounted d1 = postRecounted d"
    by (rule postRecounted_cong) (simp_all add: d1)
  from syncCommunityPostCounts_Inr [OF q [unfolded r]] same
  have "d2 = d1\<lparr>communityPosts :=
                  map (\<lambda>q. postRecounted d (clock (cp_id q)) q) (communityPosts d1)\<rparr>"
    by simp
  with d1 p q r show ?thesis
    by (simp add: syncAllCounts_def)
qed

text \<open>
  C8. If two runs of \<open>syncAllCounts\<close> follow each other with no write in between and
  both report no error, every project and every post carries the same cached counters
  after the second run as after the first.
\<close>

theorem syncAllCounts_idempotent:
  assumes "errors (fst (syncAllCounts f1 clock1 d)) = []"
    and "errors (fst (syncAllCounts f2 clock2 (snd (syncAllCounts f1 clock1 d)))) = []"
  shows "map (\<lambda>p. (p_id p, p_viewCount p, p_likeCount p, p_commentCount p))
           (projects (snd (syncAllCounts f2 clock2 (snd (syncAllCounts f1 clock1 d)))))
         = map (\<lambda>p. (p_id p, p_viewCount p, p_likeCount p, p_commentCount p))
           (projects (snd (syncAllCounts f1 clock1 d)))
       \<and> map (\<lambda>q. (cp_id q, cp_likeCount q, cp_commentCount q))
           (communityPosts (snd (syncAllCounts f2 clock2 (snd (syncAllCounts f1 clock1 d)))))
         = map (\<lambda>q. (cp_id q, cp_likeCount q, cp_commentCount q))
           (communityPosts (snd (syncAllCounts f1 clock1 d)))"
proof -
  let ?d1 = "snd (syncAllCounts f1 clock1 d)"
  let ?d2 = "snd (syncAllCounts f2 clock2 ?d1)"
  note d1 = syncAllCounts_no_errors [OF assms(1)]
  note d2 = syncAllCounts_no_errors [OF assms(2)]
  have tabs: "projectViews ?d1 = projectViews d" "projectLikes ?d1 = projectLikes d"
    "comments ?d1 = comments d" "postLikes ?d1 = postLikes d"
    by (simp_all add: d1)
  have "projects ?d2 = map (\<lambda>p. projectRecounted ?d1 (clock2 (p_id p)) p) (projects ?d1)"
    and "communityPosts ?d2 =
           map (\<lambda>q. postRecounted ?d1 (clock2 (cp_id q)) q) (communityPosts ?d1)"
    by (simp_all add: d2)
  moreover have "projects ?d1 = map (\<lambda>p. projectRecounted d (clock1 (p_id p)) p) (projects d)"
    and "communityPosts ?d1 =
           map (\<lambda>q. postRecounted d (clock1 (cp_id q)) q) (communityPosts d)"
    by (simp_all add: d1)
  ultimately show ?thesis
    by (simp add: projectRecounted_def postRecounted_def comp_def tabs)
qed

theorem syncAllCounts_idempotent_witness:
  "errors (fst (syncAllCounts noFaults exampleClock driftedDb)) = []
   \<and> errors (fst (syncAllCounts noFaults (\<lambda>i. 200)
        (snd (syncAllCounts noFaults exampleClock driftedDb)))) = []
   \<and> map p_likeCount (projects (snd (syncAllCounts noFaults exampleClock driftedDb))) = [2, 1]
   \<and> map p_likeCount (projects (snd (syncAllCounts noFaults (\<lambda>i. 200)
        (snd (syncAllCounts noFaults exampleClock driftedDb))))) = [2, 1]
   \<and> map (\<lambda>p. (p_id p, p_viewCount p, p_likeCount p, p_commentCount p))
        (projects (snd (syncAllCounts noFaults (\<lambda>i. 200)
           (snd (syncAllCounts noFaults exampleClock driftedDb)))))
      = map (\<lambda>p. (p_id p, p_viewCount p, p_likeCount p, p_commentCount p))
        (projects (snd (syncAllCounts noFaults exampleClock driftedDb)))"
proof -
  have a: "errors (fst (syncAllCounts noFaults exampleClock driftedDb)) = []"
    by (simp add: sync_defs drift_defs store_defs)
  have b: "errors (fst (syncAllCounts noFaults (\<lambda>i. 200)
        (snd (syncAllCounts noFaults exampleClock driftedDb)))) = []"
    by (simp add: sync_defs drift_defs store_defs)
  have c: "map p_likeCount (projects (snd (syncAllCounts noFaults exampleClock driftedDb))) = [2, 1]"
    by (simp add: sync_defs drift_defs store_defs)
  have d: "map p_likeCount (projects (snd (syncAllCounts noFaults (\<lambda>i. 200)
        (snd (syncAllCounts noFaults exampleClock driftedDb))))) = [2, 1]"
    by (simp add: sync_defs drift_defs store_defs)
  from syncAllCounts_idempotent [OF a b] a b c d show ?thesis by simp
qed

text \<open>
  C3 (counterexample). The claim says a failure on one entity is recorded and the batch
  goes on with the remaining entities. In the drifted database the store fails on
  project \<open>p1\<close>, the first one: \<open>syncAllCounts\<close> returns one error string and the
  database is exactly as before, so project \<open>p2\<close> and post \<open>q1\<close>, which a run without
  failure brings to 1 and 1 like, keep their stale 3 and 4.
\<close>

theorem syncAllCounts_failure_counterexample:
  "fst (syncAllCounts (faultOn ''p1'') exampleClock driftedDb) =
     \<lparr>projectsUpdated = 0, postsUpdated = 0,
      errors = [''Batch sync failed: connection lost'']\<rparr>
   \<and> snd (syncAllCounts (faultOn ''p1'') exampleClock driftedDb) = driftedDb
   \<and> map p_likeCount (projects driftedDb) = [0, 3]
   \<and> map cp_likeCount (communityPosts driftedDb) = [4]
   \<and> map p_likeCount (projects (snd (syncAllCounts noFaults exampleClock driftedDb))) = [2, 1]
   \<and> map cp_likeCount (communityPosts (snd (syncAllCounts noFaults exampleClock driftedDb))) = [1]"
  by (simp add: sync_defs drift_defs store_defs)

lemma syncAllCounts_project_failure:
  assumes l: "listProjectsFault f = None" and ids: "map p_id (projects d) = before @ pid # rest"
    and ok: "\<forall>i \<in> set before. projectFault f i = None" and bad: "projectFault f pid = Some m"
  shows "fst (syncAllCounts f clock d) =
          \<lparr>projectsUpdated = 0, postsUpdated = 0, errors = [''Batch sync failed: '' @ m]\<rparr>
        \<and> snd (syncAllCounts f clock d) =
          d\<lparr>projects :=
              map (\<lambda>p. if p_id p \<in> set before then projectRecounted d (clock (p_id p)) p else p)
                (projects d)\<rparr>"
proof -
  have "syncProjectCounts f clock d =
          (Inl (StoreFault m), fold (\<lambda>i. recountProject (clock i) i) before d)"
    using syncProjectLoop_fault [OF ok bad, of clock rest 0 d] l ids
    by (simp add: syncProjectCounts_def)
  then show ?thesis
    by (simp add: syncAllCounts_def fold_recountProject)
qed

lemma syncAllCounts_post_failure:
  assumes l: "listProjectsFault f = None"
    and pok: "\<forall>i \<in> set (map p_id (projects d)). projectFault f i = None"
    and lq: "listPostsFault f = None"
    and ids: "map cp_id (communityPosts d) = before @ qid # rest"
    and ok: "\<forall>i \<in> set before. postFault f i = None" and bad: "postFault f qid = Some m"
  shows "fst (syncAllCounts f clock d) =
          \<lparr>projectsUpdated = length (projects d), postsUpdated = 0,
           errors = [''Batch sync failed: '' @ m]\<rparr>
        \<and> snd (syncAllCounts f clock d) =
          d\<lparr>projects := map (\<lambda>p. projectRecounted d (clock (p_id p)) p) (projects d),
            communityPosts :=
              map (\<lambda>q. if cp_id q \<in> set before then postRecounted d (clock (cp_id q)) q else q)
                (communityPosts d)\<rparr>"
proof -
  let ?d1 = "d\<lparr>projects := map (\<lambda>p. projectRecounted d (clock (p_id p)) p) (projects d)\<rparr>"
  have p: "syncProjectCounts f clock d = (Inr (length (projects d)), ?d1)"
    using syncProjectLoop_ok [OF pok, of clock 0 d] l
    by (simp add: syncProjectCounts_def fold_recountProject cong: map_cong)
  have same: "postRecounted ?d1 = postRecounted d"
    by (rule postRecounted_cong) simp_all
  have "syncCommunityPostCounts f clock ?d1 =
          (Inl (StoreFault m), fold (\<lambda>i. recountPost (clock i) i) before ?d1)"
    using syncPostLoop_fault [OF ok bad, of clock rest 0 ?d1] lq ids
    by (simp add: syncCommunityPostCounts_def)
  with p same show ?thesis
    by (simp add: syncAllCounts_def fold_recountPost)
qed

text \<open>
  C3 (amended). The first failure while recomputing an entity ends the run. It is
  rethrown by the loop's function and caught once by \<open>syncAllCounts\<close>, whose result has
  exactly one error string, \<open>Batch sync failed:\<close> followed by the error. The entities
  listed before the failing one carry their recomputed counters; the failing entity and
  all after it are untouched, and so is every post when a project failed. The count of
  the half that failed is reported as 0.
\<close>

theorem syncAllCounts_aborts_on_first_failure:
  "(listProjectsFault f = None \<and> map p_id (projects d) = before @ pid # rest
      \<and> (\<forall>i \<in> set before. projectFault f i = None) \<and> projectFault f pid = Some m
    \<longrightarrow> fst (syncAllCounts f clock d) =
          \<lparr>projectsUpdated = 0, postsUpdated = 0, errors = [''Batch sync failed: '' @ m]\<rparr>
        \<and> snd (syncAllCounts f clock d) =
          d\<lparr>projects :=
              map (\<lambda>p. if p_id p \<in> set before then projectRecounted d (clock (p_id p)) p else p)
                (projects d)\<rparr>)
   \<and> (listProjectsFault f = None \<and> (\<forall>i \<in> set (map p_id (projects d)). projectFault f i = None)
      \<and> listPostsFault f = None \<and> map cp_id (communityPosts d) = before @ qid # rest
      \<and> (\<forall>i \<in> set before. postFault f i = None) \<and> postFault f qid = Some m
    \<longrightarrow> fst (syncAllCounts f clock d) =
          \<lparr>projectsUpdated = length (projects d), postsUpdated = 0,
           errors = [''Batch sync failed: '' @ m]\<rparr>
        \<and> snd (syncAllCounts f clock d) =
          d\<lparr>projects := map (\<lambda>p. projectRecounted d (clock (p_id p)) p) (projects d),
            communityPosts :=
              map (\<lambda>q. if cp_id q \<in> set before then postRecounted d (clock (cp_id q)) q else q)
                (communityPosts d)\<rparr>)"
  using syncAllCounts_project_failure [of f d before pid rest m clock]
    syncAllCounts_post_failure [of f d before qid rest m clock]
  by blast

theorem syncAllCounts_aborts_on_first_failure_witness:
  "fst (syncAllCounts (faultOn ''p2'') exampleClock driftedDb) =
     \<lparr>projectsUpdated = 0, postsUpdated = 0,
      errors = [''Batch sync failed: connection lost'']\<rparr>
   \<and> map p_likeCount (projects (snd (syncAllCounts (faultOn ''p2'') exampleClock driftedDb))) = [2, 3]
   \<and> map cp_likeCount (communityPosts (snd (syncAllCounts (faultOn ''p2'') exampleClock driftedDb))) = [4]
   \<and> fst (syncAllCounts (faultOn ''q1'') exampleClock driftedDb) =
     \<lparr>projectsUpdated = 2, postsUpdated = 0,
      errors = [''Batch sync failed: connection lost'']\<rparr>
   \<and> map p_likeCount (projects (snd (syncAllCounts (faultOn ''q1'') exampleClock driftedDb))) = [2, 1]
   \<and> map cp_likeCount (communityPosts (snd (syncAllCounts (faultOn ''q1'') exampleClock driftedDb))) = [4]"
  using syncAllCounts_aborts_on_first_failure
          [where f = "faultOn ''p2''" and d = driftedDb and before = "[''p1'']" and pid = "''p2''"
             and rest = "[]" and m = "''connection lost''" and clock = exampleClock
             and qid = "''q1''"]
        syncAllCounts_aborts_on_first_failure
          [where f = "faultOn ''q1''" and d = driftedDb and before = "[]" and qid = "''q1''"
             and rest = "[]" and m = "''connection lost''" and clock = exampleClock
             and pid = "''p1''"]
  by (simp add: faultOn_def drift_defs store_defs projectRecounted_def postRecounted_def
      exampleClock_def)

section \<open>Counters never go negative\<close>

subsection \<open>Counting\<close>

lemma count_where_nonneg [simp]: "0 \<le> count_where c rows"
  by (simp add: count_where_def)

lemma count_where_append [simp]:
  "count_where c (xs @ ys) = count_where c xs + count_where c ys"
  by (simp add: count_where_def)

lemma count_where_single [simp]: "count_where c [x] = (if c x then 1 else 0)"
  by (simp add: count_where_def)

lemma count_where_Nil [simp]: "count_where c [] = 0"
  by (simp add: count_where_def)

lemma count_where_mono:
  "(\<And>x. x \<in> set xs \<Longrightarrow> c x \<Longrightarrow> c' x) \<Longrightarrow> count_where c xs \<le> count_where c' xs"
  by (induction xs) (auto simp: count_where_def)

lemma count_where_filter_le: "count_where c (filter k xs) \<le> count_where c xs"
  by (induction xs) (auto simp: count_where_def)

lemma count_where_filter_less:
  "x \<in> set xs \<Longrightarrow> c x \<Longrightarrow> \<not> k x \<Longrightarrow> count_where c (filter k xs) + 1 \<le> count_where c xs"
proof (induction xs)
  case Nil
  then show ?case by simp
next
  case (Cons y ys)
  have le: "count_where c (filter k ys) \<le> count_where c ys" by (rule count_where_filter_le)
  show ?case
  proof (cases "x = y")
    case True
    with Cons.prems le show ?thesis by (simp add: count_where_def)
  next
    case False
    with Cons have "count_where c (filter k ys) + 1 \<le> count_where c ys" by simp
    then show ?thesis by (simp add: count_where_def)
  qed
qed

lemma count_where_none: "\<forall>x \<in> set xs. \<not> c x \<Longrightarrow> count_where c xs = 0"
  by (induction xs) (auto simp: count_where_def)

subsection \<open>Distinct likers\<close>

lemma projectLikers_Nil [simp]: "projectLikers [] pid = 0"
  by (simp add: projectLikers_def)

lemma projectLikers_none:
  "\<forall>l \<in> set ls. pl_projectId l \<noteq> pid \<Longrightarrow> projectLikers ls pid = 0"
proof -
  assume "\<forall>l \<in> set ls. pl_projectId l \<noteq> pid"
  then have "{l \<in> set ls. pl_projectId l = pid} = {}" by auto
  then show ?thesis by (simp add: projectLikers_def)
qed

lemma projectLikers_le_count:
  "projectLikers ls pid \<le> count_where (\<lambda>l. pl_projectId l = pid) ls"
proof -
  have "card (pl_userId ` {l \<in> set ls. pl_projectId l = pid})
          \<le> card {l \<in> set ls. pl_projectId l = pid}"
    by (rule card_image_le) simp
  also have "{l \<in> set ls. pl_projectId l = pid} = set (filter (\<lambda>l. pl_projectId l = pid) ls)"
    by auto
  also have "card \<dots> \<le> length (filter (\<lambda>l. pl_projectId l = pid) ls)"
    by (rule card_length)
  finally show ?thesis by (simp add: projectLikers_def count_where_def)
qed

lemma projectLikers_append:
  "projectLikers (ls @ [r]) pid
     \<le> projectLikers ls pid + (if pl_projectId r = pid then 1 else 0)"
proof (cases "pl_projectId r = pid")
  case True
  then have "{l \<in> set (ls @ [r]). pl_projectId l = pid}
               = insert r {l \<in> set ls. pl_projectId l = pid}" by auto
  then have "card (pl_userId ` {l \<in> set (ls @ [r]). pl_projectId l = pid})
               \<le> Suc (card (pl_userId ` {l \<in> set ls. pl_projectId l = pid}))"
    by (simp add: card_insert_if)
  with True show ?thesis by (simp add: projectLikers_def)
next
  case False
  then have "{l \<in> set (ls @ [r]). pl_projectId l = pid} = {l \<in> set ls. pl_projectId l = pid}"
    by auto
  with False show ?thesis by (simp add: projectLikers_def)
qed

lemma projectLikers_delete_other:
  "pid' \<noteq> pid \<Longrightarrow>
   projectLikers (delete_where (\<lambda>l. pl_projectId l = pid \<and> pl_userId l = uid) ls) pid'
     = projectLikers ls pid'"
proof -
  assume "pid' \<noteq> pid"
  then have "{l \<in> set (delete_where (\<lambda>l. pl_projectId l = pid \<and> pl_userId l = uid) ls).
                pl_projectId l = pid'} = {l \<in> set ls. pl_projectId l = pid'}"
    by (auto simp: delete_where_def)
  then show ?thesis by (simp add: projectLikers_def)
qed

lemma projectLikers_delete_same:
  assumes "l \<in> set ls" "pl_projectId l = pid" "pl_userId l = uid"
  shows "projectLikers (delete_where (\<lambda>l. pl_projectId l = pid \<and> pl_userId l = uid) ls) pid + 1
           \<le> projectLikers ls pid"
proof -
  let ?A = "pl_userId ` {l \<in> set ls. pl_projectId l = pid}"
  have "pl_userId ` {l \<in> set (delete_where (\<lambda>l. pl_projectId l = pid \<and> pl_userId l = uid) ls).
                pl_projectId l = pid} = ?A - {uid}"
    by (auto simp: delete_where_def)
  moreover have "uid \<in> ?A" using assms by force
  moreover have "finite ?A" by simp
  ultimately have eq: "card (pl_userId ` {l \<in> set (delete_where (\<lambda>l. pl_projectId l = pid \<and> pl_userId l = uid) ls).
                pl_projectId l = pid}) = card ?A - 1" and pos: "0 < card ?A"
    by (simp_all add: card_gt_0_iff) blast
  from eq pos have "card (pl_userId ` {l \<in> set (delete_where (\<lambda>l. pl_projectId l = pid \<and> pl_userId l = uid) ls).
                pl_projectId l = pid}) + 1 = card ?A"
    by arith
  then show ?thesis by (simp add: projectLikers_def)
qed

lemma postLikers_Nil [simp]: "postLikers [] qid = 0"
  by (simp add: postLikers_def)

lemma postLikers_none:
  "\<forall>l \<in> set ls. ql_postId l \<noteq> qid \<Longrightarrow> postLikers ls qid = 0"
proof -
  assume "\<forall>l \<in> set ls. ql_postId l \<noteq> qid"
  then have "{l \<in> set ls. ql_postId l = qid} = {}" by auto
  then show ?thesis by (simp add: postLikers_def)
qed

lemma postLikers_le_count:
  "postLikers ls qid \<le> count_where (\<lambda>l. ql_postId l = qid) ls"
proof -
  have "card (ql_userId ` {l \<in> set ls. ql_postId l = qid})
          \<le> card {l \<in> set ls. ql_postId l = qid}"
    by (rule card_image_le) simp
  also have "{l \<in> set ls. ql_postId l = qid} = set (filter (\<lambda>l. ql_postId l = qid) ls)"
    by auto
  also have "card \<dots> \<le> length (filter (\<lambda>l. ql_postId l = qid) ls)"
    by (rule card_length)
  finally show ?thesis by (simp add: postLikers_def count_where_def)
qed

lemma postLikers_append:
  "postLikers (ls @ [r]) qid
     \<le> postLikers ls qid + (if ql_postId r = qid then 1 else 0)"
proof (cases "ql_postId r = qid")
  case True
  then have "{l \<in> set (ls @ [r]). ql_postId l = qid}
               = insert r {l \<in> set ls. ql_postId l = qid}" by auto
  then have "card (ql_userId ` {l \<in> set (ls @ [r]). ql_postId l = qid})
               \<le> Suc (card (ql_userId ` {l \<in> set ls. ql_postId l = qid}))"
    by (simp add: card_insert_if)
  with True show ?thesis by (simp add: postLikers_def)
next
  case False
  then have "{l \<in> set (ls @ [r]). ql_postId l = qid} = {l \<in> set ls. ql_postId l = qid}"
    by auto
  with False show ?thesis by (simp add: postLikers_def)
qed

lemma postLikers_delete_other:
  "qid' \<noteq> qid \<Longrightarrow>
   postLikers (delete_where (\<lambda>l. ql_postId l = qid \<and> ql_userId l = uid) ls) qid'
     = postLikers ls qid'"
proof -
  assume "qid' \<noteq> qid"
  then have "{l \<in> set (delete_where (\<lambda>l. ql_postId l = qid \<and> ql_userId l = uid) ls).
                ql_postId l = qid'} = {l \<in> set ls. ql_postId l = qid'}"
    by (auto simp: delete_where_def)
  then show ?thesis by (simp add: postLikers_def)
qed

lemma postLikers_delete_same:
  assumes "l \<in> set ls" "ql_postId l = qid" "ql_userId l = uid"
  shows "postLikers (delete_where (\<lambda>l. ql_postId l = qid \<and> ql_userId l = uid) ls) qid + 1
           \<le> postLikers ls qid"
proof -
  let ?A = "ql_userId ` {l \<in> set ls. ql_postId l = qid}"
  have "ql_userId ` {l \<in> set (delete_where (\<lambda>l. ql_postId l = qid \<and> ql_userId l = uid) ls).
                ql_postId l = qid} = ?A - {uid}"
    by (auto simp: delete_where_def)
  moreover have "uid \<in> ?A" using assms by force
  moreover have "finite ?A" by simp
  ultimately have eq: "card (ql_userId ` {l \<in> set (delete_where (\<lambda>l. ql_postId l = qid \<and> ql_userId l = uid) ls).
                ql_postId l = qid}) = card ?A - 1" and pos: "0 < card ?A"
    by (simp_all add: card_gt_0_iff) blast
  from eq pos have "card (ql_userId ` {l \<in> set (delete_where (\<lambda>l. ql_postId l = qid \<and> ql_userId l = uid) ls).
                ql_postId l = qid}) + 1 = card ?A"
    by arith
  then show ?thesis by (simp add: postLikers_def)
qed


subsection \<open>What each mutator does to the tables\<close>

lemma likeProject_effect:
  "likeProject pid uid newId now None d =
     (if newId \<notin> set (map pl_id (projectLikes d)) \<and> project_exists d pid \<and> user_exists d uid
      then (True,
            d\<lparr>projectLikes := projectLikes d @
                 [\<lparr>pl_id = newId, pl_projectId = pid, pl_userId = uid, pl_createdAt = Some now\<rparr>],
              projects := map (\<lambda>p. if p_id p = pid then p\<lparr>p_likeCount := p_likeCount p + 1\<rparr> else p)
                            (projects d)\<rparr>)
      else (False, d))"
  by (simp add: likeProject_def insert_projectLike_def update_where_def)

lemma likeCommunityPost_effect:
  "likeCommunityPost qid uid newId now None d =
     (if newId \<notin> set (map ql_id (postLikes d)) \<and> post_exists d qid \<and> user_exists d uid
      then (True,
            d\<lparr>postLikes := postLikes d @
                 [\<lparr>ql_id = newId, ql_postId = qid, ql_userId = uid, ql_createdAt = Some now\<rparr>],
              communityPosts :=
                map (\<lambda>q. if cp_id q = qid then q\<lparr>cp_likeCount := cp_likeCount q + 1\<rparr> else q)
                  (communityPosts d)\<rparr>)
      else (False, d))"
  by (simp add: likeCommunityPost_def insert_postLike_def update_where_def)

lemma rowCount_pos: "(0 < rowCount c rows) = (\<exists>r \<in> set rows. c r)"
  by (induction rows) (auto simp: rowCount_def)

lemma delete_where_none: "\<forall>r \<in> set rows. \<not> c r \<Longrightarrow> delete_where c rows = rows"
  by (induction rows) (auto simp: delete_where_def)

lemma unlikeProject_effect:
  "unlikeProject pid uid d =
     (if \<exists>l \<in> set (projectLikes d). pl_projectId l = pid \<and> pl_userId l = uid
      then (True,
            d\<lparr>projectLikes :=
                 delete_where (\<lambda>l. pl_projectId l = pid \<and> pl_userId l = uid) (projectLikes d),
              projects := map (\<lambda>p. if p_id p = pid then p\<lparr>p_likeCount := p_likeCount p - 1\<rparr> else p)
                            (projects d)\<rparr>)
      else (False, d))"
  by (auto simp: unlikeProject_def Let_def rowCount_pos update_where_def delete_where_none)

lemma unlikeCommunityPost_effect:
  "unlikeCommunityPost qid uid d =
     (if \<exists>l \<in> set (postLikes d). ql_postId l = qid \<and> ql_userId l = uid
      then (True,
            d\<lparr>postLikes :=
                 delete_where (\<lambda>l. ql_postId l = qid \<and> ql_userId l = uid) (postLikes d),
              communityPosts :=
                map (\<lambda>q. if cp_id q = qid then q\<lparr>cp_likeCount := cp_likeCount q - 1\<rparr> else q)
                  (communityPosts d)\<rparr>)
      else (False, d))"
  by (auto simp: unlikeCommunityPost_def Let_def rowCount_pos update_where_def delete_where_none)

subsection \<open>Each operation keeps the counters consistent\<close>

lemma map_key_preserved: "(\<And>x. f (g x) = f x) \<Longrightarrow> map f (map g xs) = map f xs"
  by (induction xs) simp_all

lemma project_exists_cong:
  "map p_id (projects d') = map p_id (projects d) \<Longrightarrow> project_exists d' = project_exists d"
  unfolding project_exists_def by (rule ext) (simp only:)

lemma post_exists_cong:
  "map cp_id (communityPosts d') = map cp_id (communityPosts d) \<Longrightarrow>
   post_exists d' = post_exists d"
  unfolding post_exists_def by (rule ext) (simp only:)

lemma references_okI:
  assumes "references_ok d"
    and pe: "\<And>i. project_exists d i \<Longrightarrow> project_exists d' i"
    and qe: "\<And>i. post_exists d i \<Longrightarrow> post_exists d' i"
    and "\<And>l. l \<in> set (projectLikes d') \<Longrightarrow>
           l \<in> set (projectLikes d) \<or> project_exists d' (pl_projectId l)"
    and "\<And>l. l \<in> set (postLikes d') \<Longrightarrow>
           l \<in> set (postLikes d) \<or> post_exists d' (ql_postId l)"
    and "\<And>c. c \<in> set (comments d') \<Longrightarrow>
           c \<in> set (comments d)
           \<or> ((\<forall>p. c_projectId c = Some p \<longrightarrow> project_exists d' p)
              \<and> (\<forall>q. c_postId c = Some q \<longrightarrow> post_exists d' q))"
  shows "references_ok d'"
proof -
  have 1: "project_exists d' (pl_projectId l)" if "l \<in> set (projectLikes d')" for l
    using assms(4) [OF that] assms(1) pe by (auto simp: references_ok_def)
  have 2: "post_exists d' (ql_postId l)" if "l \<in> set (postLikes d')" for l
    using assms(5) [OF that] assms(1) qe by (auto simp: references_ok_def)
  have 3: "(\<forall>p. c_projectId c = Some p \<longrightarrow> project_exists d' p)
         \<and> (\<forall>q. c_postId c = Some q \<longrightarrow> post_exists d' q)" if "c \<in> set (comments d')" for c
    using assms(6) [OF that] assms(1) pe qe by (auto simp: references_ok_def)
  from 1 2 3 show ?thesis unfolding references_ok_def by blast
qed

lemma consistent_mapI:
  assumes "references_ok d'"
    and "projects d' = map g (projects d)"
    and "\<And>p. p \<in> set (projects d) \<Longrightarrow> project_ok (projectLikes d') (comments d') (g p)"
    and "communityPosts d' = map h (communityPosts d)"
    and "\<And>q. q \<in> set (communityPosts d) \<Longrightarrow> post_ok (postLikes d') (comments d') (h q)"
  shows "counters_consistent d'"
  using assms by (auto simp: counters_consistent_def)

lemma consistentI:
  assumes "references_ok d"
    and "\<And>p. p \<in> set (projects d) \<Longrightarrow> project_ok (projectLikes d) (comments d) p"
    and "\<And>q. q \<in> set (communityPosts d) \<Longrightarrow> post_ok (postLikes d) (comments d) q"
  shows "counters_consistent d"
  using assms by (simp add: counters_consistent_def)

lemma consistent_cong:
  assumes "counters_consistent d"
    and "projects d' = projects d" and "communityPosts d' = communityPosts d"
    and "projectLikes d' = projectLikes d" and "postLikes d' = postLikes d"
    and "comments d' = comments d"
  shows "counters_consistent d'"
  using assms
  by (simp add: counters_consistent_def references_ok_def project_exists_def post_exists_def)

lemma consistent_likeProject:
  assumes "counters_consistent d"
  shows "counters_consistent (snd (likeProject pid uid newId now None d))"
proof (cases "newId \<notin> set (map pl_id (projectLikes d)) \<and> project_exists d pid \<and> user_exists d uid")
  case False
  with assms show ?thesis by (auto simp: likeProject_effect)
next
  case True
  let ?r = "\<lparr>pl_id = newId, pl_projectId = pid, pl_userId = uid, pl_createdAt = Some now\<rparr>"
  let ?d' = "d\<lparr>projectLikes := projectLikes d @ [?r],
         projects := map (\<lambda>p. if p_id p = pid then p\<lparr>p_likeCount := p_likeCount p + 1\<rparr> else p)
                       (projects d)\<rparr>"
  from assms have ref: "references_ok d"
    and pok: "\<And>p. p \<in> set (projects d) \<Longrightarrow> project_ok (projectLikes d) (comments d) p"
    and qok: "\<And>q. q \<in> set (communityPosts d) \<Longrightarrow> post_ok (postLikes d) (comments d) q"
    by (auto simp: counters_consistent_def)
  have step: "project_ok (projectLikes d @ [?r]) (comments d)
                (if p_id p = pid then p\<lparr>p_likeCount := p_likeCount p + 1\<rparr> else p)"
    if "p \<in> set (projects d)" for p
    using pok [OF that] projectLikers_append [of "projectLikes d" ?r "p_id p"]
    by (auto simp: project_ok_def)
  have "project_exists ?d' = project_exists d" "post_exists ?d' = post_exists d"
    by (rule project_exists_cong post_exists_cong, simp add: map_key_preserved)+
  with True have "references_ok ?d'"
    by (intro references_okI [OF ref]) auto
  then have "counters_consistent ?d'"
    by (rule consistent_mapI [where d = d and g = "\<lambda>p. if p_id p = pid then p\<lparr>p_likeCount := p_likeCount p + 1\<rparr> else p" and h = "\<lambda>q. q"])
       (simp_all add: step pok qok)
  with True show ?thesis by (simp add: likeProject_effect)
qed

lemma consistent_likeCommunityPost:
  assumes "counters_consistent d"
  shows "counters_consistent (snd (likeCommunityPost qid uid newId now None d))"
proof (cases "newId \<notin> set (map ql_id (postLikes d)) \<and> post_exists d qid \<and> user_exists d uid")
  case False
  with assms show ?thesis by (auto simp: likeCommunityPost_effect)
next
  case True
  let ?r = "\<lparr>ql_id = newId, ql_postId = qid, ql_userId = uid, ql_createdAt = Some now\<rparr>"
  let ?d' = "d\<lparr>postLikes := postLikes d @ [?r],
         communityPosts :=
           map (\<lambda>q. if cp_id q = qid then q\<lparr>cp_likeCount := cp_likeCount q + 1\<rparr> else q)
             (communityPosts d)\<rparr>"
  from assms have ref: "references_ok d"
    and pok: "\<And>p. p \<in> set (projects d) \<Longrightarrow> project_ok (projectLikes d) (comments d) p"
    and qok: "\<And>q. q \<in> set (communityPosts d) \<Longrightarrow> post_ok (postLikes d) (comments d) q"
    by (auto simp: counters_consistent_def)
  have step: "post_ok (postLikes d @ [?r]) (comments d)
                (if cp_id q = qid then q\<lparr>cp_likeCount := cp_likeCount q + 1\<rparr> else q)"
    if "q \<in> set (communityPosts d)" for q
    using qok [OF that] postLikers_append [of "postLikes d" ?r "cp_id q"]
    by (auto simp: post_ok_def)
  have "project_exists ?d' = project_exists d" "post_exists ?d' = post_exists d"
    by (rule project_exists_cong post_exists_cong, simp add: map_key_preserved)+
  with True have "references_ok ?d'"
    by (intro references_okI [OF ref]) auto
  then have "counters_consistent ?d'"
    by (rule consistent_mapI [where d = d and g = "\<lambda>p. p" and h = "\<lambda>q. if cp_id q = qid then q\<lparr>cp_likeCount := cp_likeCount q + 1\<rparr> else q"])
       (simp_all add: step pok qok)
  with True show ?thesis by (simp add: likeCommunityPost_effect)
qed

lemma consistent_unlikeProject:
  assumes "counters_consistent d"
  shows "counters_consistent (snd (unlikeProject pid uid d))"
proof (cases "\<exists>l \<in> set (projectLikes d). pl_projectId l = pid \<and> pl_userId l = uid")
  case False
  with assms show ?thesis by (auto simp: unlikeProject_effect)
next
  case True
  then obtain l where l: "l \<in> set (projectLikes d)" "pl_projectId l = pid" "pl_userId l = uid"
    by blast
  let ?ls = "delete_where (\<lambda>l. pl_projectId l = pid \<and> pl_userId l = uid) (projectLikes d)"
  let ?d' = "d\<lparr>projectLikes := ?ls,
         projects := map (\<lambda>p. if p_id p = pid then p\<lparr>p_likeCount := p_likeCount p - 1\<rparr> else p)
                       (projects d)\<rparr>"
  from assms have ref: "references_ok d"
    and pok: "\<And>p. p \<in> set (projects d) \<Longrightarrow> project_ok (projectLikes d) (comments d) p"
    and qok: "\<And>q. q \<in> set (communityPosts d) \<Longrightarrow> post_ok (postLikes d) (comments d) q"
    by (auto simp: counters_consistent_def)
  have step: "project_ok ?ls (comments d)
                (if p_id p = pid then p\<lparr>p_likeCount := p_likeCount p - 1\<rparr> else p)"
    if "p \<in> set (projects d)" for p
    using pok [OF that] projectLikers_delete_same [OF l]
      projectLikers_delete_other [of "p_id p" pid uid "projectLikes d"]
    by (auto simp: project_ok_def)
  have "project_exists ?d' = project_exists d" "post_exists ?d' = post_exists d"
    by (rule project_exists_cong post_exists_cong, simp add: map_key_preserved)+
  then have "references_ok ?d'"
    by (intro references_okI [OF ref]) (auto simp: delete_where_def)
  then have "counters_consistent ?d'"
    by (rule consistent_mapI [where d = d and g = "\<lambda>p. if p_id p = pid then p\<lparr>p_likeCount := p_likeCount p - 1\<rparr> else p" and h = "\<lambda>q. q"])
       (simp_all add: step pok qok)
  with True show ?thesis by (simp add: unlikeProject_effect)
qed

lemma consistent_unlikeCommunityPost:
  assumes "counters_consistent d"
  shows "counters_consistent (snd (unlikeCommunityPost qid uid d))"
proof (cases "\<exists>l \<in> set (postLikes d). ql_postId l = qid \<and> ql_userId l = uid")
  case False
  with assms show ?thesis by (auto simp: unlikeCommunityPost_effect)
next
  case True
  then obtain l where l: "l \<in> set (postLikes d)" "ql_postId l = qid" "ql_userId l = uid"
    by blast
  let ?ls = "delete_where (\<lambda>l. ql_postId l = qid \<and> ql_userId l = uid) (postLikes d)"
  let ?d' = "d\<lparr>postLikes := ?ls,
         communityPosts :=
           map (\<lambda>q. if cp_id q = qid then q\<lparr>cp_likeCount := cp_likeCount q - 1\<rparr> else q)
             (communityPosts d)\<rparr>"
  from assms have ref: "references_ok d"
    and pok: "\<And>p. p \<in> set (projects d) \<Longrightarrow> project_ok (projectLikes d) (comments d) p"
    and qok: "\<And>q. q \<in> set (communityPosts d) \<Longrightarrow> post_ok (postLikes d) (comments d) q"
    by (auto simp: counters_consistent_def)
  have step: "post_ok ?ls (comments d)
                (if cp_id q = qid then q\<lparr>cp_likeCount := cp_likeCount q - 1\<rparr> else q)"
    if "q \<in> set (communityPosts d)" for q
    using qok [OF that] postLikers_delete_same [OF l]
      postLikers_delete_other [of "cp_id q" qid uid "postLikes d"]
    by (auto simp: post_ok_def)
  have "project_exists ?d' = project_exists d" "post_exists ?d' = post_exists d"
    by (rule project_exists_cong post_exists_cong, simp add: map_key_preserved)+
  then have "references_ok ?d'"
    by (intro references_okI [OF ref]) (auto simp: delete_where_def)
  then have "counters_consistent ?d'"
    by (rule consistent_mapI [where d = d and g = "\<lambda>p. p" and h = "\<lambda>q. if cp_id q = qid then q\<lparr>cp_likeCount := cp_likeCount q - 1\<rparr> else q"])
       (simp_all add: step pok qok)
  with True show ?thesis by (simp add: unlikeCommunityPost_effect)
qed

lemma consistent_bookmarkProject:
  "counters_consistent d \<Longrightarrow> counters_consistent (snd (bookmarkProject pid uid newId now d))"
  by (erule consistent_cong) (simp_all add: bookmarkProject_def insert_projectBookmark_def)

lemma consistent_unbookmarkProject:
  "counters_consistent d \<Longrightarrow> counters_consistent (snd (unbookmarkProject pid uid d))"
  by (erule consistent_cong) (simp_all add: unbookmarkProject_def Let_def)

lemma consistent_views:
  assumes "counters_consistent d"
  shows "counters_consistent
           (d\<lparr>projects := map (\<lambda>p. if p_id p = pid then p\<lparr>p_viewCount := p_viewCount p + 1\<rparr> else p)
                            (projects d)\<rparr>)"
proof -
  from assms have ref: "references_ok d"
    and pok: "\<And>p. p \<in> set (projects d) \<Longrightarrow> project_ok (projectLikes d) (comments d) p"
    and qok: "\<And>q. q \<in> set (communityPosts d) \<Longrightarrow> post_ok (postLikes d) (comments d) q"
    by (auto simp: counters_consistent_def)
  have step: "project_ok (projectLikes d) (comments d)
                (if p_id p = pid then p\<lparr>p_viewCount := p_viewCount p + 1\<rparr> else p)"
    if "p \<in> set (projects d)" for p
    using pok [OF that] by (auto simp: project_ok_def)
  let ?d' = "d\<lparr>projects := map (\<lambda>p. if p_id p = pid then p\<lparr>p_viewCount := p_viewCount p + 1\<rparr> else p)
                            (projects d)\<rparr>"
  have "project_exists ?d' = project_exists d" "post_exists ?d' = post_exists d"
    by (rule project_exists_cong post_exists_cong, simp add: map_key_preserved)+
  then have "references_ok ?d'"
    by (intro references_okI [OF ref]) auto
  then show ?thesis
    by (rule consistent_mapI [where d = d and g = "\<lambda>p. if p_id p = pid then p\<lparr>p_viewCount := p_viewCount p + 1\<rparr> else p" and h = "\<lambda>q. q"])
       (simp_all add: step pok qok)
qed

lemma consistent_incrementProjectViews:
  "counters_consistent d \<Longrightarrow> counters_consistent (incrementProjectViews pid d)"
  using consistent_views [of d pid]
  by (simp add: incrementProjectViews_def update_where_def)

lemma consistent_trackProjectView:
  assumes "counters_consistent d"
  shows "counters_consistent (trackProjectView pid viewer ip newId now d)"
  by (rule consistent_cong [OF consistent_views [OF assms, of pid]])
     (simp_all add: trackProjectView_def update_where_def Let_def)


lemma createComment_Inr:
  assumes "createComment cm newId now d = Inr (c, d')"
  shows "c_projectId c = ic_projectId cm" and "c_postId c = ic_postId cm"
    and "\<forall>p. c_projectId c = Some p \<longrightarrow> project_exists d p"
    and "\<forall>q. c_postId c = Some q \<longrightarrow> post_exists d q"
    and "comments d' = comments d @ [c]"
    and "projects d' =
           map (\<lambda>p. if countsForProject (p_id p) c
                     then p\<lparr>p_commentCount := p_commentCount p + 1\<rparr> else p) (projects d)"
    and "communityPosts d' =
           map (\<lambda>q. if countsForPost (cp_id q) c
                     then q\<lparr>cp_commentCount := cp_commentCount q + 1\<rparr> else q)
             (communityPosts d)"
    and "projectLikes d' = projectLikes d" and "postLikes d' = postLikes d"
proof -
  let ?c = "\<lparr>c_id = newId, c_content = ic_content cm, c_projectId = ic_projectId cm,
             c_postId = ic_postId cm, c_userId = ic_userId cm,
             c_createdAt = Some now, c_updatedAt = Some now\<rparr>"
  from assms obtain d1 where ins: "insert_comment ?c d = Inr d1"
    by (auto simp: createComment_def Let_def split: sum.splits)
  then have d1: "d1 = d\<lparr>comments := comments d @ [?c]\<rparr>"
    and fk: "\<forall>p. ic_projectId cm = Some p \<longrightarrow> project_exists d p"
      "\<forall>q. ic_postId cm = Some q \<longrightarrow> post_exists d q"
    by (auto simp: insert_comment_def split: if_splits option.splits)
  from assms ins have c: "c = ?c"
    by (auto simp: createComment_def Let_def split: if_splits)
  show "c_projectId c = ic_projectId cm" "c_postId c = ic_postId cm"
    by (simp_all add: c)
  from fk show "\<forall>p. c_projectId c = Some p \<longrightarrow> project_exists d p"
    "\<forall>q. c_postId c = Some q \<longrightarrow> post_exists d q"
    by (simp_all add: c)
  have idp: "map (\<lambda>p. if False then f p else p) xs = xs" for f :: "'a \<Rightarrow> 'a" and xs
    by simp
  from assms ins d1 show "comments d' = comments d @ [c]"
    "projectLikes d' = projectLikes d" "postLikes d' = postLikes d"
    by (auto simp: createComment_def Let_def c split: if_splits)
  from assms ins d1 show "projects d' =
           map (\<lambda>p. if countsForProject (p_id p) c
                     then p\<lparr>p_commentCount := p_commentCount p + 1\<rparr> else p) (projects d)"
    by (cases "truthy (ic_projectId cm)")
       (auto simp: createComment_def Let_def c update_where_def countsForProject_def
          split: if_splits)
  from assms ins d1 show "communityPosts d' =
           map (\<lambda>q. if countsForPost (cp_id q) c
                     then q\<lparr>cp_commentCount := cp_commentCount q + 1\<rparr> else q)
             (communityPosts d)"
    by (cases "truthy (ic_projectId cm)"; cases "truthy (ic_postId cm)")
       (auto simp: createComment_def Let_def c update_where_def countsForPost_def
          split: if_splits)
qed

lemma consistent_createComment:
  assumes inv: "counters_consistent d" and run: "createComment cm newId now d = Inr (c, d')"
  shows "counters_consistent d'"
proof -
  note eff = createComment_Inr [OF run]
  from inv have ref: "references_ok d"
    and pok: "\<And>p. p \<in> set (projects d) \<Longrightarrow> project_ok (projectLikes d) (comments d) p"
    and qok: "\<And>q. q \<in> set (communityPosts d) \<Longrightarrow> post_ok (postLikes d) (comments d) q"
    by (auto simp: counters_consistent_def)
  have "project_exists d' = project_exists d" "post_exists d' = post_exists d"
    by (rule project_exists_cong post_exists_cong, simp add: eff map_key_preserved)+
  with eff(3,4) have "references_ok d'"
    by (intro references_okI [OF ref]) (auto simp: eff)
  then show ?thesis
  proof (rule consistent_mapI [OF _ eff(6) _ eff(7)])
    fix p assume "p \<in> set (projects d)"
    from pok [OF this] show "project_ok (projectLikes d') (comments d')
            (if countsForProject (p_id p) c
             then p\<lparr>p_commentCount := p_commentCount p + 1\<rparr> else p)"
      by (simp add: eff project_ok_def)
  next
    fix q assume "q \<in> set (communityPosts d)"
    from qok [OF this] show "post_ok (postLikes d') (comments d')
            (if countsForPost (cp_id q) c
             then q\<lparr>cp_commentCount := cp_commentCount q + 1\<rparr> else q)"
      by (simp add: eff post_ok_def)
  qed
qed

lemma deleteComment_effect:
  assumes "filter (\<lambda>r. c_id r = cid \<and> c_userId r = uid) (comments d) = cm # rest"
  shows "deleteComment cid uid d =
          (True,
           d\<lparr>comments := delete_where (\<lambda>r. c_id r = cid \<and> c_userId r = uid) (comments d),
             projects :=
               map (\<lambda>p. if countsForProject (p_id p) cm
                         then p\<lparr>p_commentCount := p_commentCount p - 1\<rparr> else p) (projects d),
             communityPosts :=
               map (\<lambda>q. if countsForPost (cp_id q) cm
                         then q\<lparr>cp_commentCount := cp_commentCount q - 1\<rparr> else q)
                 (communityPosts d)\<rparr>)"
  using assms
  by (cases "truthy (c_projectId cm)"; cases "truthy (c_postId cm)")
     (auto simp: deleteComment_def Let_def rowCount_def update_where_def
        countsForProject_def countsForPost_def)

lemma consistent_deleteComment:
  assumes inv: "counters_consistent d"
  shows "counters_consistent (snd (deleteComment cid uid d))"
proof (cases "filter (\<lambda>r. c_id r = cid \<and> c_userId r = uid) (comments d)")
  case Nil
  with inv show ?thesis by (simp add: deleteComment_def)
next
  case (Cons cm rest)
  let ?m = "\<lambda>r. c_id r = cid \<and> c_userId r = uid"
  let ?cs = "delete_where ?m (comments d)"
  let ?g = "\<lambda>p. if countsForProject (p_id p) cm
                 then p\<lparr>p_commentCount := p_commentCount p - 1\<rparr> else p"
  let ?h = "\<lambda>q. if countsForPost (cp_id q) cm
                 then q\<lparr>cp_commentCount := cp_commentCount q - 1\<rparr> else q"
  let ?d' = "d\<lparr>comments := ?cs, projects := map ?g (projects d),
               communityPosts := map ?h (communityPosts d)\<rparr>"
  from Cons have "cm \<in> set (filter ?m (comments d))" by simp
  then have cm: "cm \<in> set (comments d)" "?m cm" by auto
  have cs: "?cs = filter (\<lambda>r. \<not> ?m r) (comments d)" by (simp add: delete_where_def)
  from inv have ref: "references_ok d"
    and pok: "\<And>p. p \<in> set (projects d) \<Longrightarrow> project_ok (projectLikes d) (comments d) p"
    and qok: "\<And>q. q \<in> set (communityPosts d) \<Longrightarrow> post_ok (postLikes d) (comments d) q"
    by (auto simp: counters_consistent_def)
  have "project_exists ?d' = project_exists d" "post_exists ?d' = post_exists d"
    by (rule project_exists_cong post_exists_cong, simp add: map_key_preserved)+
  then have "references_ok ?d'"
    by (intro references_okI [OF ref]) (auto simp: delete_where_def)
  then have "counters_consistent ?d'"
  proof (rule consistent_mapI [where d = d and g = ?g and h = ?h])
    fix p assume "p \<in> set (projects d)"
    from pok [OF this]
      count_where_filter_le [of "countsForProject (p_id p)" "\<lambda>r. \<not> ?m r" "comments d"]
      count_where_filter_less [of cm "comments d" "countsForProject (p_id p)" "\<lambda>r. \<not> ?m r"] cm
    show "project_ok (projectLikes ?d') (comments ?d') (?g p)"
      by (auto simp: project_ok_def cs)
  next
    fix q assume "q \<in> set (communityPosts d)"
    from qok [OF this]
      count_where_filter_le [of "countsForPost (cp_id q)" "\<lambda>r. \<not> ?m r" "comments d"]
      count_where_filter_less [of cm "comments d" "countsForPost (cp_id q)" "\<lambda>r. \<not> ?m r"] cm
    show "post_ok (postLikes ?d') (comments ?d') (?h q)"
      by (auto simp: post_ok_def cs)
  qed simp_all
  with Cons show ?thesis by (simp add: deleteComment_effect)
qed


lemma consistent_createProject:
  assumes inv: "counters_consistent d" and run: "createProject pr newId now d = Inr (p, d')"
  shows "counters_consistent d'"
proof -
  from run have fresh: "\<not> project_exists d newId"
    and d': "d' = d\<lparr>projects := projects d @ [p]\<rparr>"
    and p: "p_id p = newId" "p_viewCount p = 0" "p_likeCount p = 0" "p_commentCount p = 0"
    by (auto simp: createProject_def Let_def split: if_splits)
  from inv have ref: "references_ok d"
    and pok: "\<And>p. p \<in> set (projects d) \<Longrightarrow> project_ok (projectLikes d) (comments d) p"
    and qok: "\<And>q. q \<in> set (communityPosts d) \<Longrightarrow> post_ok (postLikes d) (comments d) q"
    by (auto simp: counters_consistent_def)
  have "\<forall>l \<in> set (projectLikes d). pl_projectId l \<noteq> newId"
    using ref fresh by (auto simp: references_ok_def)
  then have likes: "projectLikers (projectLikes d) newId = 0"
    by (rule projectLikers_none)
  have "\<forall>c \<in> set (comments d). \<not> countsForProject newId c"
    using ref fresh by (auto simp: references_ok_def countsForProject_def)
  then have comms: "count_where (countsForProject newId) (comments d) = 0"
    by (rule count_where_none)
  have new: "project_ok (projectLikes d) (comments d) p"
    by (simp add: project_ok_def p likes comms)
  have pe: "project_exists d i \<Longrightarrow> project_exists d' i" for i
    by (auto simp: project_exists_def d')
  have qe: "post_exists d' = post_exists d"
    by (rule post_exists_cong) (simp add: d')
  have "references_ok d'"
    by (rule references_okI [OF ref]) (auto simp: pe qe, simp_all add: d')
  then show ?thesis
    using pok qok new by (intro consistentI) (auto simp: d')
qed

lemma consistent_createCommunityPost:
  assumes inv: "counters_consistent d"
    and run: "createCommunityPost po newId now d = Inr (q, d')"
  shows "counters_consistent d'"
proof -
  from run have fresh: "\<not> post_exists d newId"
    and d': "d' = d\<lparr>communityPosts := communityPosts d @ [q]\<rparr>"
    and q: "cp_id q = newId" "cp_likeCount q = 0" "cp_commentCount q = 0"
    by (auto simp: createCommunityPost_def Let_def split: if_splits)
  from inv have ref: "references_ok d"
    and pok: "\<And>p. p \<in> set (projects d) \<Longrightarrow> project_ok (projectLikes d) (comments d) p"
    and qok: "\<And>q. q \<in> set (communityPosts d) \<Longrightarrow> post_ok (postLikes d) (comments d) q"
    by (auto simp: counters_consistent_def)
  have "\<forall>l \<in> set (postLikes d). ql_postId l \<noteq> newId"
    using ref fresh by (auto simp: references_ok_def)
  then have likes: "postLikers (postLikes d) newId = 0"
    by (rule postLikers_none)
  have "\<forall>c \<in> set (comments d). \<not> countsForPost newId c"
    using ref fresh by (auto simp: references_ok_def countsForPost_def)
  then have comms: "count_where (countsForPost newId) (comments d) = 0"
    by (rule count_where_none)
  have new: "post_ok (postLikes d) (comments d) q"
    by (simp add: post_ok_def q likes comms)
  have qe: "post_exists d i \<Longrightarrow> post_exists d' i" for i
    by (auto simp: post_exists_def d')
  have pe: "project_exists d' = project_exists d"
    by (rule project_exists_cong) (simp add: d')
  have "references_ok d'"
    by (rule references_okI [OF ref]) (auto simp: pe qe, simp_all add: d')
  then show ?thesis
    using pok qok new by (intro consistentI) (auto simp: d')
qed

lemma consistent_recountProject:
  assumes inv: "counters_consistent d"
  shows "counters_consistent (recountProject now i d)"
proof -
  let ?g = "\<lambda>p. if p_id p = i then projectRecounted d now p else p"
  let ?d' = "d\<lparr>projects := map ?g (projects d)\<rparr>"
  from inv have ref: "references_ok d"
    and pok: "\<And>p. p \<in> set (projects d) \<Longrightarrow> project_ok (projectLikes d) (comments d) p"
    and qok: "\<And>q. q \<in> set (communityPosts d) \<Longrightarrow> post_ok (postLikes d) (comments d) q"
    by (auto simp: counters_consistent_def)
  have "project_exists ?d' = project_exists d" "post_exists ?d' = post_exists d"
    by (rule project_exists_cong post_exists_cong, simp add: map_key_preserved)+
  then have "references_ok ?d'"
    by (intro references_okI [OF ref]) auto
  then have "counters_consistent ?d'"
  proof (rule consistent_mapI [where d = d and g = ?g and h = "\<lambda>q. q"])
    fix p assume "p \<in> set (projects d)"
    have "count_where (countsForProject (p_id p)) (comments d)
            \<le> count_where (\<lambda>c. c_projectId c = Some (p_id p)) (comments d)"
      by (rule count_where_mono) (simp add: countsForProject_def)
    with pok [OF \<open>p \<in> set (projects d)\<close>] projectLikers_le_count [of "projectLikes d" "p_id p"]
    show "project_ok (projectLikes ?d') (comments ?d') (?g p)"
      by (auto simp: project_ok_def projectRecounted_def)
  qed (simp_all add: qok)
  then show ?thesis by (simp add: recountProject_eq)
qed

lemma consistent_recountPost:
  assumes inv: "counters_consistent d"
  shows "counters_consistent (recountPost now i d)"
proof -
  let ?h = "\<lambda>q. if cp_id q = i then postRecounted d now q else q"
  let ?d' = "d\<lparr>communityPosts := map ?h (communityPosts d)\<rparr>"
  from inv have ref: "references_ok d"
    and pok: "\<And>p. p \<in> set (projects d) \<Longrightarrow> project_ok (projectLikes d) (comments d) p"
    and qok: "\<And>q. q \<in> set (communityPosts d) \<Longrightarrow> post_ok (postLikes d) (comments d) q"
    by (auto simp: counters_consistent_def)
  have "project_exists ?d' = project_exists d" "post_exists ?d' = post_exists d"
    by (rule project_exists_cong post_exists_cong, simp add: map_key_preserved)+
  then have "references_ok ?d'"
    by (intro references_okI [OF ref]) auto
  then have "counters_consistent ?d'"
  proof (rule consistent_mapI [where d = d and g = "\<lambda>p. p" and h = ?h])
    fix q assume "q \<in> set (communityPosts d)"
    have "count_where (countsForPost (cp_id q)) (comments d)
            \<le> count_where (\<lambda>c. c_postId c = Some (cp_id q)) (comments d)"
      by (rule count_where_mono) (simp add: countsForPost_def)
    with qok [OF \<open>q \<in> set (communityPosts d)\<close>] postLikers_le_count [of "postLikes d" "cp_id q"]
    show "post_ok (postLikes ?d') (comments ?d') (?h q)"
      by (auto simp: post_ok_def postRecounted_def)
  qed (simp_all add: pok)
  then show ?thesis by (simp add: recountPost_eq)
qed

lemma consistent_syncProjectLoop:
  "counters_consistent d \<Longrightarrow> counters_consistent (snd (syncProjectLoop f clock ids n d))"
  by (induction ids arbitrary: n d) (auto simp: consistent_recountProject split: option.splits)

lemma consistent_syncPostLoop:
  "counters_consistent d \<Longrightarrow> counters_consistent (snd (syncPostLoop f clock ids n d))"
  by (induction ids arbitrary: n d) (auto simp: consistent_recountPost split: option.splits)

lemma consistent_syncProjectCounts:
  "counters_consistent d \<Longrightarrow> counters_consistent (snd (syncProjectCounts f clock d))"
  by (simp add: syncProjectCounts_def consistent_syncProjectLoop split: option.splits)

lemma consistent_syncCommunityPostCounts:
  "counters_consistent d \<Longrightarrow> counters_consistent (snd (syncCommunityPostCounts f clock d))"
  by (simp add: syncCommunityPostCounts_def consistent_syncPostLoop split: option.splits)

lemma consistent_syncAllCounts:
  assumes "counters_consistent d"
  shows "counters_consistent (snd (syncAllCounts f clock d))"
proof -
  obtain r1 d1 where p: "syncProjectCounts f clock d = (r1, d1)"
    by (cases "syncProjectCounts f clock d")
  obtain r2 d2 where q: "syncCommunityPostCounts f clock d1 = (r2, d2)"
    by (cases "syncCommunityPostCounts f clock d1")
  from consistent_syncProjectCounts [OF assms, of f clock] p
  have 1: "counters_consistent d1" by simp
  from consistent_syncCommunityPostCounts [OF 1, of f clock] q
  have 2: "counters_consistent d2" by simp
  from p q 1 2 show ?thesis
    by (simp add: syncAllCounts_def split: sum.splits)
qed

lemma projectLikers_delete_le:
  "projectLikers (delete_where c ls) i \<le> projectLikers ls i"
proof -
  have "pl_userId ` {l \<in> set (delete_where c ls). pl_projectId l = i}
          \<subseteq> pl_userId ` {l \<in> set ls. pl_projectId l = i}"
    by (auto simp: delete_where_def)
  then have "card (pl_userId ` {l \<in> set (delete_where c ls). pl_projectId l = i})
          \<le> card (pl_userId ` {l \<in> set ls. pl_projectId l = i})"
    by (intro card_mono) simp_all
  then show ?thesis by (simp add: projectLikers_def)
qed

lemma postLikers_delete_le:
  "postLikers (delete_where c ls) i \<le> postLikers ls i"
proof -
  have "ql_userId ` {l \<in> set (delete_where c ls). ql_postId l = i}
          \<subseteq> ql_userId ` {l \<in> set ls. ql_postId l = i}"
    by (auto simp: delete_where_def)
  then have "card (ql_userId ` {l \<in> set (delete_where c ls). ql_postId l = i})
          \<le> card (ql_userId ` {l \<in> set ls. ql_postId l = i})"
    by (intro card_mono) simp_all
  then show ?thesis by (simp add: postLikers_def)
qed

lemma consistent_rows_deleted:
  assumes inv: "counters_consistent d"
  shows "counters_consistent
           (d\<lparr>projectLikes := delete_where c1 (projectLikes d),
              postLikes := delete_where c2 (postLikes d),
              comments := delete_where c3 (comments d)\<rparr>)"
proof -
  let ?d' = "d\<lparr>projectLikes := delete_where c1 (projectLikes d),
              postLikes := delete_where c2 (postLikes d),
              comments := delete_where c3 (comments d)\<rparr>"
  from inv have ref: "references_ok d"
    and pok: "\<And>p. p \<in> set (projects d) \<Longrightarrow> project_ok (projectLikes d) (comments d) p"
    and qok: "\<And>q. q \<in> set (communityPosts d) \<Longrightarrow> post_ok (postLikes d) (comments d) q"
    by (auto simp: counters_consistent_def)
  have "project_exists ?d' = project_exists d" "post_exists ?d' = post_exists d"
    by (rule project_exists_cong post_exists_cong, simp)+
  then have "references_ok ?d'"
    by (intro references_okI [OF ref]) (auto simp: delete_where_def)
  then show ?thesis
  proof (rule consistent_mapI [where d = d and g = "\<lambda>p. p" and h = "\<lambda>q. q"])
    fix p assume "p \<in> set (projects d)"
    from pok [OF this] projectLikers_delete_le [of c1 "projectLikes d" "p_id p"]
      count_where_filter_le [of "countsForProject (p_id p)" "\<lambda>r. \<not> c3 r" "comments d"]
    show "project_ok (projectLikes ?d') (comments ?d') p"
      by (simp add: project_ok_def delete_where_def)
  next
    fix q assume "q \<in> set (communityPosts d)"
    from qok [OF this] postLikers_delete_le [of c2 "postLikes d" "cp_id q"]
      count_where_filter_le [of "countsForPost (cp_id q)" "\<lambda>r. \<not> c3 r" "comments d"]
    show "post_ok (postLikes ?d') (comments ?d') q"
      by (simp add: post_ok_def delete_where_def)
  qed simp_all
qed

lemma delete_where_nothing [simp]: "delete_where (\<lambda>r. False) rows = rows"
  by (simp add: delete_where_def)

lemma consistent_projectLikes_deleted:
  "counters_consistent d \<Longrightarrow>
   counters_consistent (d\<lparr>projectLikes := delete_where c (projectLikes d)\<rparr>)"
  using consistent_rows_deleted [where d = d and ?c1.0 = c and ?c2.0 = "\<lambda>r. False" and ?c3.0 = "\<lambda>r. False"]
  by simp

lemma consistent_postLikes_deleted:
  "counters_consistent d \<Longrightarrow>
   counters_consistent (d\<lparr>postLikes := delete_where c (postLikes d)\<rparr>)"
  using consistent_rows_deleted [where d = d and ?c1.0 = "\<lambda>r. False" and ?c2.0 = c and ?c3.0 = "\<lambda>r. False"]
  by simp

lemma consistent_comments_deleted:
  "counters_consistent d \<Longrightarrow>
   counters_consistent (d\<lparr>comments := delete_where c (comments d)\<rparr>)"
  using consistent_rows_deleted [where d = d and ?c1.0 = "\<lambda>r. False" and ?c2.0 = "\<lambda>r. False" and ?c3.0 = c]
  by simp

lemma consistent_start:
  "counters_consistent
     \<lparr>users = us, projects = [], projectLikes = [], projectBookmarks = [],
      communityPosts = [], postLikes = [], comments = [], projectViews = []\<rparr>"
  by (simp add: counters_consistent_def references_ok_def)

lemma reachable_consistent: "reachable False d \<Longrightarrow> counters_consistent d"
proof (induction rule: reachable.induct)
  case (start us)
  show ?case by (rule consistent_start)
next
  case (users_changed d us)
  then show ?case by (auto elim: consistent_cong)
next
  case (project_liked d updateFault pid uid newId now)
  then show ?case by (simp add: consistent_likeProject)
next
  case (post_liked d updateFault qid uid newId now)
  then show ?case by (simp add: consistent_likeCommunityPost)
next
  case (view_track_interrupted d v)
  then show ?case by (auto elim: consistent_cong)
next
  case (project_synced d f now pid d')
  then show ?case
    by (auto simp: syncSingleProjectCounts_def consistent_recountProject split: option.splits)
next
  case (post_synced d f now qid d')
  then show ?case
    by (auto simp: syncSinglePostCounts_def consistent_recountPost split: option.splits)
qed (auto intro: consistent_createProject consistent_createCommunityPost
      consistent_unlikeProject consistent_unlikeCommunityPost
      consistent_bookmarkProject consistent_unbookmarkProject
      consistent_createComment consistent_deleteComment consistent_incrementProjectViews
      consistent_trackProjectView consistent_syncAllCounts
      consistent_projectLikes_deleted consistent_postLikes_deleted
      consistent_comments_deleted)

lemma projectLikers_nonneg: "0 \<le> projectLikers ls i"
  by (simp add: projectLikers_def)

lemma postLikers_nonneg: "0 \<le> postLikers ls i"
  by (simp add: postLikers_def)

lemma reachable_exampleDb: "reachable lossy exampleDb"
proof -
  let ?d0 = "\<lparr>users = [exampleUser ''u1'', exampleUser ''u2''], projects = [],
              projectLikes = [], projectBookmarks = [], communityPosts = [],
              postLikes = [], comments = [], projectViews = []\<rparr>"
  let ?d1 = "?d0\<lparr>projects := [exampleProject ''p1'' ''u1'']\<rparr>"
  let ?d2 = "?d1\<lparr>projects := [exampleProject ''p1'' ''u1'', exampleProject ''p2'' ''u2'']\<rparr>"
  have 0: "reachable lossy ?d0" by (rule reachable.start)
  have "createProject (exampleInsertProject ''u1'') ''p1'' 0 ?d0
          = Inr (exampleProject ''p1'' ''u1'', ?d1)"
    by (simp add: createProject_def Let_def exampleInsertProject_def exampleProject_def
        exampleUser_def project_exists_def user_exists_def)
  from reachable.project_created [OF 0 this] have 1: "reachable lossy ?d1" .
  have "createProject (exampleInsertProject ''u2'') ''p2'' 0 ?d1
          = Inr (exampleProject ''p2'' ''u2'', ?d2)"
    by (simp add: createProject_def Let_def exampleInsertProject_def exampleProject_def
        exampleUser_def project_exists_def user_exists_def)
  from reachable.project_created [OF 1 this] have 2: "reachable lossy ?d2" .
  have "createCommunityPost (exampleInsertPost ''u1'') ''q1'' 0 ?d2
          = Inr (examplePost ''q1'' ''u1'', exampleDb)"
    by (simp add: createCommunityPost_def Let_def exampleInsertPost_def examplePost_def
        exampleUser_def post_exists_def user_exists_def exampleDb_def)
  from reachable.post_created [OF 2 this] show ?thesis .
qed

text \<open>
  C5 (counterexample). The claim says no sequence of operations takes a counter below
  zero. In the example database, where all entities are freshly created, user \<open>u1\<close>
  likes project \<open>p1\<close> and the counter UPDATE fails after the like row was inserted:
  \<open>likeProject\<close> returns false, the row stays and the counter stays 0. The same user
  then unlikes the project: the row is deleted, the counter is lowered by 1 and stands
  at -1.
\<close>

theorem counter_below_zero_counterexample:
  "reachable True exampleDb
   \<and> \<not> fst (likeProject ''p1'' ''u1'' ''l1'' 1 (Some ''connection lost'') exampleDb)
   \<and> map pl_id (projectLikes
         (snd (likeProject ''p1'' ''u1'' ''l1'' 1 (Some ''connection lost'') exampleDb))) = [''l1'']
   \<and> map p_likeCount (projects
         (snd (likeProject ''p1'' ''u1'' ''l1'' 1 (Some ''connection lost'') exampleDb))) = [0, 0]
   \<and> fst (unlikeProject ''p1'' ''u1''
         (snd (likeProject ''p1'' ''u1'' ''l1'' 1 (Some ''connection lost'') exampleDb)))
   \<and> map p_likeCount (projects (snd (unlikeProject ''p1'' ''u1''
         (snd (likeProject ''p1'' ''u1'' ''l1'' 1 (Some ''connection lost'') exampleDb))))) = [- 1, 0]
   \<and> reachable True (snd (unlikeProject ''p1'' ''u1''
         (snd (likeProject ''p1'' ''u1'' ''l1'' 1 (Some ''connection lost'') exampleDb))))"
proof -
  have r: "reachable True (snd (unlikeProject ''p1'' ''u1''
         (snd (likeProject ''p1'' ''u1'' ''l1'' 1 (Some ''connection lost'') exampleDb))))"
    by (intro reachable.project_unliked reachable.project_liked reachable_exampleDb) simp
  have "\<not> fst (likeProject ''p1'' ''u1'' ''l1'' 1 (Some ''connection lost'') exampleDb)
   \<and> map pl_id (projectLikes
         (snd (likeProject ''p1'' ''u1'' ''l1'' 1 (Some ''connection lost'') exampleDb))) = [''l1'']
   \<and> map p_likeCount (projects
         (snd (likeProject ''p1'' ''u1'' ''l1'' 1 (Some ''connection lost'') exampleDb))) = [0, 0]
   \<and> fst (unlikeProject ''p1'' ''u1''
         (snd (likeProject ''p1'' ''u1'' ''l1'' 1 (Some ''connection lost'') exampleDb)))
   \<and> map p_likeCount (projects (snd (unlikeProject ''p1'' ''u1''
         (snd (likeProject ''p1'' ''u1'' ''l1'' 1 (Some ''connection lost'') exampleDb))))) = [- 1, 0]"
    by (simp add: likeProject_def unlikeProject_def insert_projectLike_def ex_defs store_defs)
  with r reachable_exampleDb [of True] show ?thesis by simp
qed

text \<open>
  C5 (amended). In every database reachable from one without projects, posts and
  interaction rows, by creating entities and by any sequence of like, unlike, comment,
  delete comment, view, bookmark and reconcile operations in which no counter UPDATE
  fails after an accepted like or comment INSERT, every project has \<open>likeCount\<close>,
  \<open>commentCount\<close> and \<open>viewCount\<close> at least 0 and every post has \<open>likeCount\<close> and
  \<open>commentCount\<close> at least 0. All other store failures are admitted. The decrement has
  no floor of its own: what keeps it from crossing zero is that it only runs after a row
  was deleted, and that every row was counted when it was inserted.
\<close>

theorem counters_never_negative_without_lost_increment:
  assumes "reachable False d"
  shows "(\<forall>p \<in> set (projects d).
            0 \<le> p_likeCount p \<and> 0 \<le> p_commentCount p \<and> 0 \<le> p_viewCount p)
       \<and> (\<forall>q \<in> set (communityPosts d). 0 \<le> cp_likeCount q \<and> 0 \<le> cp_commentCount q)"
proof -
  from assms have inv: "counters_consistent d" by (rule reachable_consistent)
  have "0 \<le> p_likeCount p \<and> 0 \<le> p_commentCount p \<and> 0 \<le> p_viewCount p"
    if "p \<in> set (projects d)" for p
  proof -
    from inv that have "project_ok (projectLikes d) (comments d) p"
      by (simp add: counters_consistent_def)
    with projectLikers_nonneg [of "projectLikes d" "p_id p"]
      count_where_nonneg [of "countsForProject (p_id p)" "comments d"]
    show ?thesis unfolding project_ok_def by linarith
  qed
  moreover have "0 \<le> cp_likeCount q \<and> 0 \<le> cp_commentCount q"
    if "q \<in> set (communityPosts d)" for q
  proof -
    from inv that have "post_ok (postLikes d) (comments d) q"
      by (simp add: counters_consistent_def)
    with postLikers_nonneg [of "postLikes d" "cp_id q"]
      count_where_nonneg [of "countsForPost (cp_id q)" "comments d"]
    show ?thesis unfolding post_ok_def by linarith
  qed
  ultimately show ?thesis by blast
qed

theorem counters_never_negative_without_lost_increment_witness:
  "reachable False (snd (unlikeProject ''p1'' ''u1'' (snd (unlikeProject ''p1'' ''u1''
      (snd (likeProject ''p1'' ''u1'' ''l1'' 1 None exampleDb))))))
   \<and> map p_likeCount (projects (snd (likeProject ''p1'' ''u1'' ''l1'' 1 None exampleDb))) = [1, 0]
   \<and> map p_likeCount (projects (snd (unlikeProject ''p1'' ''u1'' (snd (unlikeProject ''p1'' ''u1''
      (snd (likeProject ''p1'' ''u1'' ''l1'' 1 None exampleDb))))))) = [0, 0]
   \<and> list_all (\<lambda>p. 0 \<le> p_likeCount p \<and> 0 \<le> p_commentCount p \<and> 0 \<le> p_viewCount p)
       (projects (snd (unlikeProject ''p1'' ''u1'' (snd (unlikeProject ''p1'' ''u1''
      (snd (likeProject ''p1'' ''u1'' ''l1'' 1 None exampleDb)))))))"
proof -
  have r: "reachable False (snd (unlikeProject ''p1'' ''u1'' (snd (unlikeProject ''p1'' ''u1''
      (snd (likeProject ''p1'' ''u1'' ''l1'' 1 None exampleDb))))))"
    by (intro reachable.project_unliked reachable.project_liked reachable_exampleDb) simp
  have v: "map p_likeCount (projects (snd (likeProject ''p1'' ''u1'' ''l1'' 1 None exampleDb))) = [1, 0]"
    "map p_likeCount (projects (snd (unlikeProject ''p1'' ''u1'' (snd (unlikeProject ''p1'' ''u1''
      (snd (likeProject ''p1'' ''u1'' ''l1'' 1 None exampleDb))))))) = [0, 0]"
    by (simp_all add: likeProject_def unlikeProject_def insert_projectLike_def ex_defs store_defs)
  from counters_never_negative_without_lost_increment [OF r] r v show ?thesis
    by (simp add: list_all_iff)
qed

end
